theory Spec2Isabelle
  imports Complex_Main "HOL-Library.AList"
begin

section \<open>Weather forecast application: lib/weather.ts and lib/cities.ts\<close>

text \<open>
  JavaScript numbers that carry timestamps, page numbers and counts are modelled as
  \<open>int\<close>, measurements (temperatures, probabilities, coordinates) as \<open>real\<close> with
  exact arithmetic. An absent (\<open>undefined\<close>) property is \<open>None\<close>. A thrown exception is
  the \<open>Inl\<close> branch of a sum.
\<close>

datatype js_error =
    RangeError
  | TypeError
  | FetchRejected
  | JsonRejected
  | Error string

subsection \<open>Records of the weather provider (lib/weather.ts, lines 3-98)\<close>

record weather_cond =
  wc_id :: int
  wc_main :: string
  wc_description :: string
  wc_icon :: string

record main_block =
  temp :: real
  feels_like :: real
  temp_min :: real
  temp_max :: real
  pressure :: real
  humidity :: real

text \<open>
  One element of the \<open>list\<close> array of the 5-day/3-hour forecast response, with the
  properties \<open>processForecastData\<close> reads. An optional chain such as \<open>item.sys?.sunrise\<close>
  is one optional field: it is \<open>None\<close> when \<open>sys\<close> or \<open>sunrise\<close> is absent.
\<close>

record forecast_item =
  dt :: int
  main :: main_block
  weather :: "weather_cond list"
  pop :: "real option"
  sys_sunrise :: "int option"
  sys_sunset :: "int option"
  wind_speed :: "real option"
  wind_deg :: "real option"
  wind_gust :: "real option"
  clouds_all :: "real option"
  rain_3h :: "real option"
  snow_3h :: "real option"

record temp_block =
  t_day :: real
  t_min :: real
  t_max :: real
  t_night :: real
  t_eve :: real
  t_morn :: real

record feels_block =
  fl_day :: real
  fl_night :: real
  fl_eve :: real
  fl_morn :: real

record ForecastData =
  fd_dt :: int
  fd_sunrise :: int
  fd_sunset :: int
  fd_temp :: temp_block
  fd_feels_like :: feels_block
  fd_pressure :: real
  fd_humidity :: real
  fd_weather :: "weather_cond list"
  fd_speed :: real
  fd_deg :: real
  fd_gust :: real
  fd_clouds :: real
  fd_pop :: real
  fd_rain :: "real option"
  fd_snow :: "real option"

subsection \<open>JavaScript operators and built-ins used by the code\<close>

text \<open>\<open>x || d\<close> on a number that is present: \<open>0\<close> is falsy.\<close>

definition or_num :: "'a::zero \<Rightarrow> 'a \<Rightarrow> 'a" where
  "or_num x d = (if x = 0 then d else x)"

text \<open>\<open>x || d\<close> on an optional number: \<open>undefined\<close> and \<open>0\<close> are falsy.\<close>

definition or_opt :: "'a::zero option \<Rightarrow> 'a \<Rightarrow> 'a" where
  "or_opt x d = (case x of None \<Rightarrow> d | Some v \<Rightarrow> or_num v d)"

text \<open>
  \<open>new Date(ms).toISOString().split("T")[0]\<close>: a time value beyond 8.64e15 ms is an
  invalid date, on which \<open>toISOString\<close> throws a RangeError. Otherwise the result is the
  calendar date, in UTC, of the day that holds \<open>ms\<close>. The date string is represented by
  the number of that day counted from 1970-01-01: \<open>toISOString\<close> writes different days
  differently, and the code only compares these strings and parses them back.
\<close>

definition toISOString_date :: "int \<Rightarrow> js_error + int" where
  "toISOString_date ms =
     (if \<bar>ms\<bar> > 8640000000000000 then Inl RangeError else Inr (ms div 86400000))"

text \<open>\<open>new Date(date).getTime()\<close> on a date-only string: midnight UTC of that day, in ms.\<close>

definition Date_getTime :: "int \<Rightarrow> int" where
  "Date_getTime date = date * 86400000"

text \<open>\<open>Math.min(...temps)\<close> and \<open>Math.max(...temps)\<close> on a spread list with first element \<open>t\<close>.\<close>

definition Math_min :: "real \<Rightarrow> real list \<Rightarrow> real" where
  "Math_min t ts = fold min ts t"

definition Math_max :: "real \<Rightarrow> real list \<Rightarrow> real" where
  "Math_max t ts = fold max ts t"

text \<open>\<open>Math.round\<close>: the nearest integer, a half rounded up.\<close>

definition Math_round :: "real \<Rightarrow> int" where
  "Math_round x = \<lfloor>x + 1 / 2\<rfloor>"

text \<open>\<open>xs.map(f)\<close> where \<open>f\<close> may throw: the first exception ends the traversal.\<close>

fun map_throwing :: "('a \<Rightarrow> js_error + 'b) \<Rightarrow> 'a list \<Rightarrow> js_error + 'b list" where
  "map_throwing f [] = Inr []"
| "map_throwing f (x # xs) =
     (case f x of
        Inl e \<Rightarrow> Inl e
      | Inr y \<Rightarrow> (case map_throwing f xs of Inl e \<Rightarrow> Inl e | Inr ys \<Rightarrow> Inr (y # ys)))"

subsection \<open>processForecastData (lib/weather.ts, lines 153-209)\<close>

text \<open>
  The function never reads its second parameter \<open>units\<close>, which the model leaves out.
\<close>

text \<open>
  \<open>dailyData\<close> is an object whose keys are date strings; \<open>Object.entries\<close> lists them in
  the order of their first insertion. It is an association list in that order.
  Lines 159-162: create the day's array when the key is new, then push the item.
\<close>

definition push_item :: "int \<Rightarrow> forecast_item \<Rightarrow> (int \<times> forecast_item list) list
    \<Rightarrow> (int \<times> forecast_item list) list" where
  "push_item date item dailyData =
     AList.update date
       (case map_of dailyData date of None \<Rightarrow> [item] | Some items \<Rightarrow> items @ [item])
       dailyData"

text \<open>Lines 157-163: the \<open>forEach\<close> loop.\<close>

fun group_by_day :: "(int \<times> forecast_item list) list \<Rightarrow> forecast_item list
    \<Rightarrow> js_error + (int \<times> forecast_item list) list" where
  "group_by_day dailyData [] = Inr dailyData"
| "group_by_day dailyData (item # rest) =
     (case toISOString_date (dt item * 1000) of
        Inl e \<Rightarrow> Inl e
      | Inr date \<Rightarrow> group_by_day (push_item date item dailyData) rest)"

text \<open>
  \<open>items[i]?.main.temp || d\<close>: an index outside the array gives \<open>undefined\<close>, hence \<open>d\<close>;
  so does a value of \<open>0\<close>.
\<close>

definition snapshot :: "forecast_item list \<Rightarrow> int \<Rightarrow> (main_block \<Rightarrow> real) \<Rightarrow> real \<Rightarrow> real" where
  "snapshot items i field d =
     (if 0 \<le> i \<and> i < int (length items) then or_num (field (main (items ! nat i))) d else d)"

text \<open>
  Lines 166-208: the record of one day. On an empty array \<open>dayForecast\<close> is \<open>undefined\<close>
  and reading \<open>dayForecast.sys\<close> throws a TypeError.
\<close>

definition day_record :: "int \<times> forecast_item list \<Rightarrow> js_error + ForecastData" where
  "day_record entry =
     (case entry of (date, items) \<Rightarrow>
        (case map (\<lambda>item. temp (main item)) items of
           [] \<Rightarrow> Inl TypeError
         | t # ts \<Rightarrow>
            (let minTemp = Math_min t ts;
                 maxTemp = Math_max t ts;
                 midIndex = int (length items) div 2;
                 dayForecast = items ! nat midIndex;
                 pop = foldl (\<lambda>sum item. sum + or_opt (pop item) 0) 0 items
                         / real (length items)
             in Inr \<lparr>
                  fd_dt = Date_getTime date div 1000,
                  fd_sunrise = or_opt (sys_sunrise dayForecast) (dt dayForecast),
                  fd_sunset = or_opt (sys_sunset dayForecast) (dt dayForecast + 43200),
                  fd_temp = \<lparr>
                    t_day = temp (main dayForecast),
                    t_min = minTemp,
                    t_max = maxTemp,
                    t_night = snapshot items (int (length items) - 1) temp
                                (temp (main dayForecast)),
                    t_eve = snapshot items (min (int (length items) - 1) (midIndex + 2)) temp
                                (temp (main dayForecast)),
                    t_morn = snapshot items 0 temp (temp (main dayForecast)) \<rparr>,
                  fd_feels_like = \<lparr>
                    fl_day = feels_like (main dayForecast),
                    fl_night = snapshot items (int (length items) - 1) feels_like
                                (feels_like (main dayForecast)),
                    fl_eve = snapshot items (min (int (length items) - 1) (midIndex + 2))
                                feels_like (feels_like (main dayForecast)),
                    fl_morn = snapshot items 0 feels_like (feels_like (main dayForecast)) \<rparr>,
                  fd_pressure = pressure (main dayForecast),
                  fd_humidity = humidity (main dayForecast),
                  fd_weather = weather dayForecast,
                  fd_speed = or_opt (wind_speed dayForecast) 0,
                  fd_deg = or_opt (wind_deg dayForecast) 0,
                  fd_gust = or_opt (wind_gust dayForecast) 0,
                  fd_clouds = or_opt (clouds_all dayForecast) 0,
                  fd_pop = pop,
                  fd_rain = Some (or_opt (rain_3h dayForecast) 0),
                  fd_snow = Some (or_opt (snow_3h dayForecast) 0) \<rparr>)))"

definition processForecastData :: "forecast_item list \<Rightarrow> js_error + ForecastData list" where
  "processForecastData forecastList =
     (case group_by_day [] forecastList of
        Inl e \<Rightarrow> Inl e
      | Inr dailyData \<Rightarrow> map_throwing day_record dailyData)"


text \<open>
  The calendar day, in UTC, of a sample: whole days since 1970-01-01 of its \<open>dt\<close>
  (Unix seconds). \<open>day_items k\<close> keeps the samples of day \<open>k\<close>, in their order.
\<close>

definition utc_day :: "forecast_item \<Rightarrow> int" where
  "utc_day item = dt item div 86400"

definition day_items :: "int \<Rightarrow> forecast_item list \<Rightarrow> forecast_item list" where
  "day_items k xs = filter (\<lambda>x. utc_day x = k) xs"

text \<open>A timestamp that \<open>Date\<close> can hold: at most 8.64e15 ms from the epoch.\<close>

definition valid_timestamp :: "forecast_item \<Rightarrow> bool" where
  "valid_timestamp item = (\<bar>dt item * 1000\<bar> \<le> 8640000000000000)"

text \<open>The state of \<open>dailyData\<close> after the loop when no date is invalid.\<close>

definition grouped :: "forecast_item list \<Rightarrow> (int \<times> forecast_item list) list" where
  "grouped xs = fold (\<lambda>item a. push_item (utc_day item) item a) xs []"

text \<open>A sample with a given time, temperature and precipitation probability.\<close>

definition sample :: "int \<Rightarrow> real \<Rightarrow> real option \<Rightarrow> forecast_item" where
  "sample d t p =
     \<lparr> dt = d,
       main = \<lparr> temp = t, feels_like = t, temp_min = t, temp_max = t,
                pressure = 1013, humidity = 65 \<rparr>,
       weather = [], pop = p, sys_sunrise = None, sys_sunset = None,
       wind_speed = None, wind_deg = None, wind_gust = None, clouds_all = None,
       rain_3h = None, snow_3h = None \<rparr>"

definition example_forecast :: "forecast_item list" where
  "example_forecast =
     [sample 0 3 (Some (1 / 2)), sample 10800 7 None, sample 86400 5 (Some (1 / 4))]"

text \<open>One day at 0, 7 and 0 degrees: the first and the last sample are at 0.\<close>

definition freezing_day :: "forecast_item list" where
  "freezing_day = [sample 0 0 None, sample 10800 7 None, sample 21600 0 None]"

subsection \<open>Records of lib/cities.ts (lines 1-31) and of the city directory\<close>

record weather_summary =
  cw_temp :: int
  cw_high :: int
  cw_low :: int
  cw_description :: string
  cw_icon :: string

record City =
  city_id :: string
  name :: string
  country :: string
  latitude :: real
  longitude :: real
  population :: int
  timezone :: string
  city_weather :: "weather_summary option"

datatype sort_direction = asc | desc

text \<open>\<open>p_filters\<close> holds the remaining properties of the parameter object, in their order.\<close>

record FetchCitiesParams =
  p_page :: "int option"
  p_limit :: "int option"
  p_search :: "string option"
  p_sortField :: "string option"
  p_sortDirection :: "sort_direction option"
  p_filters :: "(string \<times> string) list"

record FetchCitiesResponse =
  cities :: "City list"
  hasMore :: bool
  total :: int

text \<open>One element of \<open>data.records\<close>; \<open>coordinates\<close> is the pair latitude, longitude.\<close>

record api_record =
  recordid :: string
  f_name :: string
  f_cou_name_en :: string
  f_coordinates :: "real \<times> real"
  f_population :: "int option"
  f_timezone :: "string option"

record cities_payload =
  records :: "api_record list"
  nhits :: int

record WeatherData =
  wd_coord_lon :: real
  wd_coord_lat :: real
  wd_weather :: "weather_cond list"
  wd_base :: string
  wd_main :: main_block
  wd_visibility :: real
  wd_wind_speed :: real
  wd_wind_deg :: real
  wd_wind_gust :: "real option"
  wd_clouds_all :: real
  wd_rain_1h :: "real option"
  wd_rain_3h :: "real option"
  wd_snow_1h :: "real option"
  wd_snow_3h :: "real option"
  wd_dt :: int
  wd_sys_type :: int
  wd_sys_id :: int
  wd_sys_country :: string
  wd_sys_sunrise :: int
  wd_sys_sunset :: int
  wd_timezone :: int
  wd_id :: int
  wd_name :: string
  wd_cod :: int

datatype units = metric | imperial

record FetchWeatherParams =
  p_lat :: real
  p_lon :: real
  p_units :: "units option"

record WeatherResponse =
  current :: WeatherData
  forecast :: "ForecastData list"

subsection \<open>The world outside: HTTP, environment, clock, random numbers, console\<close>

text \<open>
  A request is what the URL carries. For the city directory this is the list of query
  parameters, for the weather provider the coordinates, the units and the key.
\<close>

datatype request =
    CitiesRequest "(string \<times> string) list"
  | WeatherRequest real real units string
  | ForecastRequest real real units string

text \<open>
  What \<open>await fetch(url)\<close> gives: the promise rejects, or there is a response with a
  status and a body; the body is \<open>None\<close> when \<open>response.json()\<close> rejects.
\<close>

datatype 'a fetch_result = Rejected | Response nat "'a option"

datatype log_entry = console_error string js_error | console_warn string

text \<open>
  \<open>weather_api\<close> takes the position of the call within one invocation, so that two
  calls with the same URL may be answered differently. \<open>Math_random k\<close> and
  \<open>Date_now k\<close> are the results of the \<open>k\<close>-th call of \<open>Math.random()\<close> and of
  \<open>Date.now()\<close> within one invocation; \<open>Math.random()\<close> is at least 0 and below 1.
\<close>

record world =
  env_api_key :: "string option"
  cities_api :: "(string \<times> string) list \<Rightarrow> cities_payload fetch_result"
  weather_api :: "nat \<Rightarrow> real \<times> real \<times> units \<times> string \<Rightarrow> WeatherData fetch_result"
  forecast_api :: "real \<times> real \<times> units \<times> string \<Rightarrow> forecast_item list fetch_result"
  Math_random :: "nat \<Rightarrow> real"
  Date_now :: "nat \<Rightarrow> int"

text \<open>
  A run of an async function: the requests it sent, what it wrote to the console, and how
  its promise settled (\<open>Inl\<close>: rejected with the exception, \<open>Inr\<close>: resolved).
\<close>

record 'a run =
  requests :: "request list"
  logged :: "log_entry list"
  outcome :: "js_error + 'a"

text \<open>\<open>try { body } catch (error) { handler }\<close>\<close>

definition try_catch :: "'a run \<Rightarrow> (js_error \<Rightarrow> 'a run) \<Rightarrow> 'a run" where
  "try_catch body handler =
     (case outcome body of
        Inr v \<Rightarrow> body
      | Inl error \<Rightarrow>
         \<lparr> requests = requests body @ requests (handler error),
           logged = logged body @ logged (handler error),
           outcome = outcome (handler error) \<rparr>)"

definition response_ok :: "nat \<Rightarrow> bool" where
  "response_ok status = (200 \<le> status \<and> status \<le> 299)"

text \<open>\<open>Number.prototype.toString\<close> on an integer, in decimal.\<close>

function digits_of :: "nat \<Rightarrow> string" where
  "digits_of n =
     (if n < 10 then [''0123456789'' ! n]
      else digits_of (n div 10) @ [''0123456789'' ! (n mod 10)])"
  by pat_completeness auto
termination
  by (relation "measure id") auto

declare digits_of.simps [simp del]

definition Number_toString :: "int \<Rightarrow> string" where
  "Number_toString n = (if n < 0 then CHR ''-'' # digits_of (nat (- n)) else digits_of (nat n))"

text \<open>
  The steps \<open>await fetch(url)\<close>, \<open>if (!response.ok) throw new Error(msg + status)\<close>,
  \<open>await response.json()\<close>, which every fetching function repeats.
\<close>

definition fetch_json :: "string \<Rightarrow> 'a fetch_result \<Rightarrow> js_error + 'a" where
  "fetch_json msg r =
     (case r of
        Rejected \<Rightarrow> Inl FetchRejected
      | Response status body \<Rightarrow>
          if \<not> response_ok status then Inl (Error (msg @ Number_toString (int status)))
          else (case body of None \<Rightarrow> Inl JsonRejected | Some data \<Rightarrow> Inr data))"

text \<open>The fetch failed: no response, a status outside 200-299, or a body that is not JSON.\<close>

definition fetch_failed :: "'a fetch_result \<Rightarrow> bool" where
  "fetch_failed r =
     (case r of Rejected \<Rightarrow> True
      | Response status body \<Rightarrow> (if response_ok status then body = None else True))"

text \<open>\<open>xs[Math.floor(r * n)]\<close> with \<open>n\<close> the length of \<open>xs\<close> and \<open>r\<close> from \<open>Math.random()\<close>.\<close>

definition pick :: "'a list \<Rightarrow> real \<Rightarrow> 'a" where
  "pick xs r = xs ! nat \<lfloor>r * real (length xs)\<rfloor>"

text \<open>\<open>s || d\<close> on an optional string: \<open>undefined\<close> and the empty string are falsy.\<close>

definition or_str :: "string option \<Rightarrow> string \<Rightarrow> string" where
  "or_str s d = (case s of None \<Rightarrow> d | Some v \<Rightarrow> if v = [] then d else v)"

text \<open>
  \<open>Number.parseInt(s)\<close> without a radix: white space, a sign, then hexadecimal digits after
  \<open>0x\<close> and decimal digits otherwise, as far as they go; \<open>None\<close> is \<open>NaN\<close>.
\<close>

definition is_white_space :: "char \<Rightarrow> bool" where
  "is_white_space c = (c \<in> set [CHR '' '', CHR 0x09, CHR 0x0A, CHR 0x0B, CHR 0x0C, CHR 0x0D])"

definition digit_value :: "char \<Rightarrow> nat" where
  "digit_value c =
     (let n = of_char c
      in if 48 \<le> n \<and> n \<le> 57 then n - 48
         else if 97 \<le> n \<and> n \<le> 102 then n - 87
         else if 65 \<le> n \<and> n \<le> 70 then n - 55
         else 36)"

definition parseInt :: "string \<Rightarrow> int option" where
  "parseInt s =
     (let s1 = dropWhile is_white_space s;
          negative = (take 1 s1 = ''-'');
          s2 = (if take 1 s1 = ''-'' \<or> take 1 s1 = ''+'' then drop 1 s1 else s1);
          hex = (take 2 s2 = ''0x'' \<or> take 2 s2 = ''0X'');
          radix = (if hex then 16 else 10);
          s3 = (if hex then drop 2 s2 else s2);
          ds = takeWhile (\<lambda>c. digit_value c < radix) s3;
          n = foldl (\<lambda>a c. a * int radix + int (digit_value c)) 0 ds
      in if ds = [] then None else Some (if negative then - n else n))"

subsection \<open>fetchCities (lib/cities.ts, lines 34-113)\<close>

text \<open>Line 35: the parameters with their defaults.\<close>

definition page_of :: "FetchCitiesParams \<Rightarrow> int" where
  "page_of params = (case p_page params of None \<Rightarrow> 1 | Some p \<Rightarrow> p)"

definition limit_of :: "FetchCitiesParams \<Rightarrow> int" where
  "limit_of params = (case p_limit params of None \<Rightarrow> 20 | Some l \<Rightarrow> l)"

definition search_of :: "FetchCitiesParams \<Rightarrow> string" where
  "search_of params = (case p_search params of None \<Rightarrow> [] | Some s \<Rightarrow> s)"

definition sortField_of :: "FetchCitiesParams \<Rightarrow> string" where
  "sortField_of params = (case p_sortField params of None \<Rightarrow> ''name'' | Some f \<Rightarrow> f)"

definition sortDirection_of :: "FetchCitiesParams \<Rightarrow> sort_direction" where
  "sortDirection_of params = (case p_sortDirection params of None \<Rightarrow> asc | Some d \<Rightarrow> d)"

text \<open>Line 41.\<close>

definition offset_of :: "FetchCitiesParams \<Rightarrow> int" where
  "offset_of params = (page_of params - 1) * limit_of params"

text \<open>Lines 38-63: \<open>queryParams\<close>, in the order of the \<open>append\<close> calls.\<close>

definition queryParams :: "FetchCitiesParams \<Rightarrow> (string \<times> string) list" where
  "queryParams params =
     [(''rows'', Number_toString (limit_of params)),
      (''start'', Number_toString (offset_of params))]
     @ (if search_of params \<noteq> [] then [(''q'', search_of params)] else [])
     @ [(''sort'', (if sortDirection_of params = desc then ''-'' else []) @ sortField_of params)]
     @ concat (map (\<lambda>(key, value). if value \<noteq> [] then [(''refine.'' @ key, value)] else [])
         (p_filters params))
     @ [(''format'', ''json'')]"

definition cities_dataset :: "string \<times> string" where
  "cities_dataset = (''dataset'', ''geonames-all-cities-with-a-population-1000'')"

text \<open>Lines 78-86 and 134-142: an API record as a \<open>City\<close>.\<close>

definition city_of_record :: "api_record \<Rightarrow> City" where
  "city_of_record record =
     \<lparr> city_id = recordid record,
       name = f_name record,
       country = f_cou_name_en record,
       latitude = fst (f_coordinates record),
       longitude = snd (f_coordinates record),
       population = or_opt (f_population record) 0,
       timezone = or_str (f_timezone record) ''Unknown'',
       city_weather = None \<rparr>"

text \<open>
  Lines 97-105: the mock cities. The callback of \<open>Array.from\<close> runs for
  \<open>i = 0, ..., limit - 1\<close> and calls \<open>Math.random()\<close> five times.
\<close>

definition mock_city :: "world \<Rightarrow> int \<Rightarrow> nat \<Rightarrow> City" where
  "mock_city w offset i =
     \<lparr> city_id = ''mock-'' @ Number_toString (int i + offset),
       name = ''City '' @ Number_toString (int i + offset + 1),
       country = pick [''USA'', ''Canada'', ''UK'', ''Germany'', ''France''] (Math_random w (5 * i)),
       latitude = Math_random w (5 * i + 1) * 180 - 90,
       longitude = Math_random w (5 * i + 2) * 360 - 180,
       population = \<lfloor>Math_random w (5 * i + 3) * 10000000\<rfloor>,
       timezone = pick [''UTC'', ''UTC+1'', ''UTC-5'', ''UTC+8''] (Math_random w (5 * i + 4)),
       city_weather = None \<rparr>"

definition mockCities :: "world \<Rightarrow> FetchCitiesParams \<Rightarrow> FetchCitiesResponse" where
  "mockCities w params =
     \<lparr> cities = map (mock_city w (offset_of params)) [0 ..< nat (limit_of params)],
       hasMore = (page_of params < 5),
       total = 100 \<rparr>"

text \<open>Lines 66-92: the body of \<open>try\<close>.\<close>

definition fetchCities_try :: "world \<Rightarrow> FetchCitiesParams \<Rightarrow> FetchCitiesResponse run" where
  "fetchCities_try w params =
     \<lparr> requests = [CitiesRequest (cities_dataset # queryParams params)],
       logged = [],
       outcome =
         (case fetch_json ''Failed to fetch cities: ''
                 (cities_api w (cities_dataset # queryParams params)) of
            Inl e \<Rightarrow> Inl e
          | Inr data \<Rightarrow>
              Inr \<lparr> cities = map city_of_record (records data),
                    hasMore = (offset_of params + int (length (map city_of_record (records data)))
                                 < nhits data),
                    total = nhits data \<rparr>) \<rparr>"

definition fetchCities :: "world \<Rightarrow> FetchCitiesParams \<Rightarrow> FetchCitiesResponse run" where
  "fetchCities w params =
     try_catch (fetchCities_try w params)
       (\<lambda>error. \<lparr> requests = [],
                  logged = [console_error ''Error fetching cities:'' error],
                  outcome = Inr (mockCities w params) \<rparr>)"

subsection \<open>getCityById (lib/cities.ts, lines 116-162)\<close>

definition getCityById_try :: "world \<Rightarrow> string \<Rightarrow> City option run" where
  "getCityById_try w ident =
     \<lparr> requests = [CitiesRequest [cities_dataset, (''q'', ''recordid:'' @ ident)]],
       logged = [],
       outcome =
         (case fetch_json ''Failed to fetch city: ''
                 (cities_api w [cities_dataset, (''q'', ''recordid:'' @ ident)]) of
            Inl e \<Rightarrow> Inl e
          | Inr data \<Rightarrow>
              (case records data of
                 [] \<Rightarrow> Inr None
               | record # _ \<Rightarrow> Inr (Some (city_of_record record)))) \<rparr>"

text \<open>Lines 148-157; \<open>id.replace("mock-", "")\<close> removes the prefix that line 147 found.\<close>

definition mock_city_by_id :: "world \<Rightarrow> string \<Rightarrow> City" where
  "mock_city_by_id w ident =
     \<lparr> city_id = ident,
       name = ''City '' @ (case parseInt (drop 5 ident) of
                             None \<Rightarrow> ''NaN''
                           | Some idNumber \<Rightarrow> Number_toString (idNumber + 1)),
       country = pick [''USA'', ''Canada'', ''UK'', ''Germany'', ''France''] (Math_random w 0),
       latitude = Math_random w 1 * 180 - 90,
       longitude = Math_random w 2 * 360 - 180,
       population = \<lfloor>Math_random w 3 * 10000000\<rfloor>,
       timezone = pick [''UTC'', ''UTC+1'', ''UTC-5'', ''UTC+8''] (Math_random w 4),
       city_weather = None \<rparr>"

definition startsWith :: "string \<Rightarrow> string \<Rightarrow> bool" where
  "startsWith s p = (take (length p) s = p)"

definition getCityById :: "world \<Rightarrow> string \<Rightarrow> City option run" where
  "getCityById w ident =
     try_catch (getCityById_try w ident)
       (\<lambda>error. \<lparr> requests = [],
                  logged = [console_error ''Error fetching city by ID:'' error],
                  outcome = (if startsWith ident ''mock-''
                             then Inr (Some (mock_city_by_id w ident))
                             else Inr None) \<rparr>)"

subsection \<open>updateCityWeather (lib/cities.ts, lines 165-176)\<close>

text \<open>
  The \<open>weather\<close> object of lines 168-174, which lines 213-219 (and lib/weather.ts,
  lines 246-252) repeat: reading \<open>weather[0].description\<close> on an empty array throws.
\<close>

definition weather_of :: "WeatherData \<Rightarrow> js_error + weather_summary" where
  "weather_of weatherData =
     (case wd_weather weatherData of
        [] \<Rightarrow> Inl TypeError
      | first # _ \<Rightarrow>
          Inr \<lparr> cw_temp = Math_round (temp (wd_main weatherData)),
                cw_high = Math_round (temp_max (wd_main weatherData)),
                cw_low = Math_round (temp_min (wd_main weatherData)),
                cw_description = wc_description first,
                cw_icon = wc_icon first \<rparr>)"

definition updateCityWeather :: "City \<Rightarrow> WeatherData \<Rightarrow> js_error + City" where
  "updateCityWeather city weatherData =
     (case weather_of weatherData of
        Inl e \<Rightarrow> Inl e
      | Inr summary \<Rightarrow> Inr (city\<lparr>city_weather := Some summary\<rparr>))"

subsection \<open>fetchWeatherForCities (lib/cities.ts, lines 179-234; lib/weather.ts, lines 212-267)\<close>

text \<open>\<open>process.env.NEXT_PUBLIC_OPENWEATHER_API_KEY || "YOUR_OPENWEATHER_API_KEY"\<close>\<close>

definition apiKey_of :: "world \<Rightarrow> string" where
  "apiKey_of w = or_str (env_api_key w) ''YOUR_OPENWEATHER_API_KEY''"

text \<open>\<open>!apiKey || apiKey === "YOUR_OPENWEATHER_API_KEY"\<close>\<close>

definition no_api_key :: "string \<Rightarrow> bool" where
  "no_api_key apiKey = (apiKey = [] \<or> apiKey = ''YOUR_OPENWEATHER_API_KEY'')"

text \<open>A \<open>units\<close> argument with its default, \<open>units = "metric"\<close>.\<close>

definition units_of :: "units option \<Rightarrow> units" where
  "units_of units_arg = (case units_arg of None \<Rightarrow> metric | Some v \<Rightarrow> v)"

text \<open>Lines 184-193: the callback for city number \<open>i\<close> calls \<open>Math.random()\<close> five times.\<close>

definition mock_city_weather :: "world \<Rightarrow> nat \<Rightarrow> City \<Rightarrow> City" where
  "mock_city_weather w i city =
     city\<lparr>city_weather := Some
       \<lparr> cw_temp = Math_round (15 + Math_random w (5 * i) * 10),
         cw_high = Math_round (20 + Math_random w (5 * i + 1) * 10),
         cw_low = Math_round (10 + Math_random w (5 * i + 2) * 5),
         cw_description = pick [''Clear'', ''Cloudy'', ''Rainy''] (Math_random w (5 * i + 3)),
         cw_icon = pick [''01d'', ''02d'', ''10d''] (Math_random w (5 * i + 4)) \<rparr>\<rparr>"

text \<open>Lines 200-220: the inner \<open>try\<close>, for the city at position \<open>i\<close>.\<close>

definition city_weather_try :: "world \<Rightarrow> string \<Rightarrow> units \<Rightarrow> nat \<Rightarrow> City \<Rightarrow> City run" where
  "city_weather_try w apiKey u i city =
     \<lparr> requests = [WeatherRequest (latitude city) (longitude city) u apiKey],
       logged = [],
       outcome =
         (case fetch_json (''Failed to fetch weather for '' @ name city @ '': '')
                 (weather_api w i (latitude city, longitude city, u, apiKey)) of
            Inl e \<Rightarrow> Inl e
          | Inr weatherData \<Rightarrow> updateCityWeather city weatherData) \<rparr>"

text \<open>Lines 199-226: the async callback, with its \<open>catch\<close>.\<close>

definition city_weather_task :: "world \<Rightarrow> string \<Rightarrow> units \<Rightarrow> nat \<Rightarrow> City \<Rightarrow> City run" where
  "city_weather_task w apiKey u i city =
     try_catch (city_weather_try w apiKey u i city)
       (\<lambda>error. \<lparr> requests = [],
                  logged = [console_error (''Error fetching weather for '' @ name city @ '':'')
                              error],
                  outcome = Inr city \<rparr>)"

text \<open>
  \<open>await Promise.all(tasks)\<close>: the results in the order of the tasks, or the rejection of
  a task that rejects. Requests and console lines are listed task by task.
\<close>

definition Promise_all :: "'a run list \<Rightarrow> 'a list run" where
  "Promise_all tasks =
     \<lparr> requests = concat (map requests tasks),
       logged = concat (map logged tasks),
       outcome = map_throwing outcome tasks \<rparr>"

definition fetchWeatherForCities :: "world \<Rightarrow> City list \<Rightarrow> units option \<Rightarrow> City list run" where
  "fetchWeatherForCities w cs units_arg =
     (let u = units_of units_arg;
          apiKey = apiKey_of w
      in if no_api_key apiKey
         then \<lparr> requests = [], logged = [],
                outcome = Inr (map (\<lambda>(i, city). mock_city_weather w i city) (enumerate 0 cs)) \<rparr>
         else try_catch
                (Promise_all (map (\<lambda>(i, city). city_weather_task w apiKey u i city)
                   (enumerate 0 cs)))
                (\<lambda>error. \<lparr> requests = [],
                           logged = [console_error ''Error fetching weather for cities:'' error],
                           outcome = Inr cs \<rparr>))"

subsection \<open>getMockWeatherData (lib/weather.ts, lines 270-357)\<close>

definition mock_forecast_day :: "world \<Rightarrow> int \<Rightarrow> int \<Rightarrow> nat \<Rightarrow> ForecastData" where
  "mock_forecast_day w tempUnit windUnit i =
     (let dayOffset = int i * 86400;
          now = Date_now w (3 + i) div 1000;
          r = (\<lambda>k. Math_random w (10 * i + k))
      in \<lparr> fd_dt = now + dayOffset,
           fd_sunrise = now - 3600 + dayOffset,
           fd_sunset = now + 3600 + dayOffset,
           fd_temp = \<lparr>
             t_day = of_int (tempUnit + \<lfloor>r 0 * 5\<rfloor>),
             t_min = of_int (tempUnit - \<lfloor>r 1 * 5\<rfloor>),
             t_max = of_int (tempUnit + \<lfloor>r 2 * 8\<rfloor>),
             t_night = of_int (tempUnit - \<lfloor>r 3 * 3\<rfloor>),
             t_eve = of_int tempUnit,
             t_morn = of_int (tempUnit - 2) \<rparr>,
           fd_feels_like = \<lparr>
             fl_day = of_int (tempUnit - 1),
             fl_night = of_int (tempUnit - 3),
             fl_eve = of_int (tempUnit - 1),
             fl_morn = of_int (tempUnit - 4) \<rparr>,
           fd_pressure = 1013,
           fd_humidity = 65,
           fd_weather = [\<lparr>
             wc_id = 800 + \<lfloor>r 4 * 3\<rfloor>,
             wc_main = pick [''Clear'', ''Clouds'', ''Rain''] (r 5),
             wc_description = pick [''clear sky'', ''few clouds'', ''light rain''] (r 6),
             wc_icon = pick [''01d'', ''02d'', ''10d''] (r 7) \<rparr>],
           fd_speed = of_int windUnit,
           fd_deg = 240,
           fd_gust = of_int (windUnit + 2),
           fd_clouds = of_int \<lfloor>r 8 * 100\<rfloor>,
           fd_pop = r 9,
           fd_rain = None,
           fd_snow = None \<rparr>)"

definition getMockWeatherData :: "world \<Rightarrow> units \<Rightarrow> WeatherResponse" where
  "getMockWeatherData w u =
     (let tempUnit = (if u = metric then 20 else 68);
          windUnit = (if u = metric then 5 else 11)
      in \<lparr> current = \<lparr>
             wd_coord_lon = - 1257 / 10000,
             wd_coord_lat = 515085 / 10000,
             wd_weather = [\<lparr> wc_id = 800, wc_main = ''Clear'',
                              wc_description = ''clear sky'', wc_icon = ''01d'' \<rparr>],
             wd_base = ''stations'',
             wd_main = \<lparr> temp = of_int tempUnit,
                          feels_like = of_int (tempUnit - 2),
                          temp_min = of_int (tempUnit - 3),
                          temp_max = of_int (tempUnit + 3),
                          pressure = 1013,
                          humidity = 65 \<rparr>,
             wd_visibility = 10000,
             wd_wind_speed = of_int windUnit,
             wd_wind_deg = 240,
             wd_wind_gust = None,
             wd_clouds_all = 0,
             wd_rain_1h = None, wd_rain_3h = None, wd_snow_1h = None, wd_snow_3h = None,
             wd_dt = Date_now w 0 div 1000,
             wd_sys_type = 2,
             wd_sys_id = 2019646,
             wd_sys_country = ''GB'',
             wd_sys_sunrise = Date_now w 1 div 1000 - 3600,
             wd_sys_sunset = Date_now w 2 div 1000 + 3600,
             wd_timezone = 3600,
             wd_id = 2643743,
             wd_name = ''London'',
             wd_cod = 200 \<rparr>,
           forecast = map (mock_forecast_day w tempUnit windUnit) [0 ..< 7] \<rparr>)"

subsection \<open>fetchWeather (lib/weather.ts, lines 101-150)\<close>

text \<open>Lines 108-143: the body of \<open>try\<close>.\<close>

definition fetchWeather_try :: "world \<Rightarrow> real \<Rightarrow> real \<Rightarrow> units \<Rightarrow> string \<Rightarrow> WeatherResponse run" where
  "fetchWeather_try w lat lon u apiKey =
     (if no_api_key apiKey
      then \<lparr> requests = [],
             logged = [console_warn ''No OpenWeatherMap API key provided. Using mock data.''],
             outcome = Inr (getMockWeatherData w u) \<rparr>
      else (case fetch_json ''Failed to fetch current weather: ''
                    (weather_api w 0 (lat, lon, u, apiKey)) of
              Inl e \<Rightarrow> \<lparr> requests = [WeatherRequest lat lon u apiKey], logged = [],
                         outcome = Inl e \<rparr>
            | Inr currentData \<Rightarrow>
                \<lparr> requests = [WeatherRequest lat lon u apiKey, ForecastRequest lat lon u apiKey],
                  logged = [],
                  outcome =
                    (case fetch_json ''Failed to fetch forecast: ''
                            (forecast_api w (lat, lon, u, apiKey)) of
                       Inl e \<Rightarrow> Inl e
                     | Inr forecastList \<Rightarrow>
                         (case processForecastData forecastList of
                            Inl e \<Rightarrow> Inl e
                          | Inr dailyForecasts \<Rightarrow>
                              Inr \<lparr> current = currentData, forecast = dailyForecasts \<rparr>)) \<rparr>))"

definition fetchWeather :: "world \<Rightarrow> FetchWeatherParams \<Rightarrow> WeatherResponse run" where
  "fetchWeather w params =
     (let u = units_of (p_units params)
      in try_catch (fetchWeather_try w (p_lat params) (p_lon params) u (apiKey_of w))
           (\<lambda>error. \<lparr> requests = [],
                      logged = [console_error ''Error fetching weather data:'' error],
                      outcome = Inr (getMockWeatherData w u) \<rparr>))"

subsection \<open>The result for one city\<close>

text \<open>What the task of one city resolves to.\<close>

definition city_result :: "world \<Rightarrow> string \<Rightarrow> units \<Rightarrow> nat \<Rightarrow> City \<Rightarrow> City" where
  "city_result w apiKey u i city =
     (case weather_api w i (latitude city, longitude city, u, apiKey) of
        Rejected \<Rightarrow> city
      | Response status body \<Rightarrow>
          (if \<not> response_ok status then city
           else case body of
                  None \<Rightarrow> city
                | Some weatherData \<Rightarrow>
                    (case weather_of weatherData of
                       Inl e \<Rightarrow> city
                     | Inr summary \<Rightarrow> city\<lparr>city_weather := Some summary\<rparr>)))"

subsection \<open>Example worlds\<close>

definition example_city :: City where
  "example_city =
     \<lparr> city_id = ''r1'', name = ''Pune'', country = ''India'', latitude = 37 / 2,
       longitude = 74, population = 3000000, timezone = ''Asia/Kolkata'',
       city_weather = None \<rparr>"

definition second_city :: City where
  "second_city =
     \<lparr> city_id = ''r2'', name = ''Oslo'', country = ''Norway'', latitude = 60,
       longitude = 43 / 4, population = 700000, timezone = ''Europe/Oslo'',
       city_weather = None \<rparr>"

definition example_record :: api_record where
  "example_record =
     \<lparr> recordid = ''r1'', f_name = ''Pune'', f_cou_name_en = ''India'',
       f_coordinates = (37 / 2, 74), f_population = Some 3000000,
       f_timezone = Some ''Asia/Kolkata'' \<rparr>"

definition example_weather :: WeatherData where
  "example_weather =
     \<lparr> wd_coord_lon = 74, wd_coord_lat = 37 / 2,
       wd_weather = [\<lparr> wc_id = 500, wc_main = ''Rain'', wc_description = ''light rain'',
                        wc_icon = ''10d'' \<rparr>],
       wd_base = ''stations'',
       wd_main = \<lparr> temp = 57 / 2, feels_like = 30, temp_min = 27, temp_max = 123 / 4,
                    pressure = 1009, humidity = 70 \<rparr>,
       wd_visibility = 8000, wd_wind_speed = 3, wd_wind_deg = 200, wd_wind_gust = None,
       wd_clouds_all = 75,
       wd_rain_1h = Some (1 / 2), wd_rain_3h = None, wd_snow_1h = None, wd_snow_3h = None,
       wd_dt = 1700000000, wd_sys_type = 1, wd_sys_id = 9000, wd_sys_country = ''IN'',
       wd_sys_sunrise = 1699990000, wd_sys_sunset = 1700030000,
       wd_timezone = 19800, wd_id = 1259229, wd_name = ''Pune'', wd_cod = 200 \<rparr>"

text \<open>
  A world with an API key in which the city directory answers every query with one
  record out of 45 hits, the weather provider answers the first call and fails on the
  others, and the forecast is \<open>example_forecast\<close>.
\<close>

definition example_world :: world where
  "example_world =
     \<lparr> env_api_key = Some ''key'',
       cities_api = (\<lambda>q. Response 200 (Some \<lparr> records = [example_record], nhits = 45 \<rparr>)),
       weather_api = (\<lambda>i q. if i = 0 then Response 200 (Some example_weather)
                              else Response 503 None),
       forecast_api = (\<lambda>q. Response 200 (Some example_forecast)),
       Math_random = (\<lambda>k. 1 / 2),
       Date_now = (\<lambda>k. 1700000000000) \<rparr>"

text \<open>The same world with every weather call answered.\<close>

definition healthy_world :: world where
  "healthy_world = example_world\<lparr>weather_api := (\<lambda>i q. Response 200 (Some example_weather))\<rparr>"

text \<open>A world with an API key in which every fetch is rejected.\<close>

definition offline_world :: world where
  "offline_world =
     \<lparr> env_api_key = Some ''key'',
       cities_api = (\<lambda>q. Rejected),
       weather_api = (\<lambda>i q. Rejected),
       forecast_api = (\<lambda>q. Rejected),
       Math_random = (\<lambda>k. 1 / 2),
       Date_now = (\<lambda>k. 1700000000000) \<rparr>"

text \<open>A world in which the city directory finds nothing.\<close>

definition empty_world :: world where
  "empty_world = offline_world\<lparr>cities_api := (\<lambda>q. Response 200 (Some \<lparr> records = [], nhits = 0 \<rparr>))\<rparr>"

definition example_params :: FetchCitiesParams where
  "example_params =
     \<lparr> p_page = Some 3, p_limit = Some 20, p_search = None, p_sortField = None,
       p_sortDirection = Some desc, p_filters = [(''cou_name_en'', ''India'')] \<rparr>"

section \<open>Properties of processForecastData\<close>

subsection \<open>Grouping by day\<close>

lemma toISOString_date_valid:
  "valid_timestamp item \<Longrightarrow> toISOString_date (dt item * 1000) = Inr (utc_day item)"
  by (simp add: toISOString_date_def valid_timestamp_def utc_day_def)

lemma toISOString_date_invalid:
  "\<not> valid_timestamp item \<Longrightarrow> toISOString_date (dt item * 1000) = Inl RangeError"
  by (simp add: toISOString_date_def valid_timestamp_def)

lemma group_by_day_fold:
  "\<forall>x\<in>set xs. valid_timestamp x \<Longrightarrow>
   group_by_day acc xs = Inr (fold (\<lambda>item a. push_item (utc_day item) item a) xs acc)"
  by (induction xs arbitrary: acc) (simp_all add: toISOString_date_valid)

lemma map_of_push_item:
  "map_of (push_item k x G) k' =
     (if k' = k then Some ((case map_of G k of None \<Rightarrow> [] | Some its \<Rightarrow> its) @ [x])
      else map_of G k')"
  by (simp add: push_item_def update_conv' split: option.splits)

lemma keys_push_item:
  "map fst (push_item k x G) = (if k \<in> set (map fst G) then map fst G else map fst G @ [k])"
  by (simp add: push_item_def update_keys)

lemma map_of_fold_push:
  "map_of (fold (\<lambda>item a. push_item (utc_day item) item a) xs acc) k =
     (if day_items k xs = [] then map_of acc k
      else Some ((case map_of acc k of None \<Rightarrow> [] | Some its \<Rightarrow> its) @ day_items k xs))"
  by (induction xs arbitrary: acc) (auto simp: map_of_push_item day_items_def split: option.splits)

lemma distinct_fold_push:
  "distinct (map fst acc) \<Longrightarrow>
   distinct (map fst (fold (\<lambda>item a. push_item (utc_day item) item a) xs acc))"
  by (induction xs arbitrary: acc) (auto simp: keys_push_item)

lemma keys_fold_push:
  "set (map fst (fold (\<lambda>item a. push_item (utc_day item) item a) xs acc)) =
     set (map fst acc) \<union> utc_day ` set xs"
proof (induction xs arbitrary: acc)
  case Nil
  then show ?case by simp
next
  case (Cons x xs)
  have "set (map fst (push_item (utc_day x) x acc)) = insert (utc_day x) (set (map fst acc))"
    by (auto simp: keys_push_item)
  with Cons.IH [of "push_item (utc_day x) x acc"] show ?case by simp
qed

lemma grouped_distinct: "distinct (map fst (grouped xs))"
  unfolding grouped_def by (rule distinct_fold_push) simp

lemma grouped_keys: "set (map fst (grouped xs)) = utc_day ` set xs"
  using keys_fold_push [of xs "[]"] by (simp add: grouped_def)

lemma grouped_entry:
  assumes "(k, its) \<in> set (grouped xs)"
  shows "its = day_items k xs" and "its \<noteq> []"
proof -
  from assms grouped_distinct have "map_of (grouped xs) k = Some its"
    by simp
  with map_of_fold_push [of xs "[]" k]
  have *: "(if day_items k xs = [] then None else Some (day_items k xs)) = Some its"
    by (auto simp: grouped_def split: if_splits)
  from * show "its = day_items k xs" by (simp split: if_splits)
  from * show "its \<noteq> []" by (auto split: if_splits)
qed

subsection \<open>The record of one day\<close>

lemma map_throwing_all_Inr:
  "\<forall>x\<in>set xs. \<exists>y. f x = Inr y \<Longrightarrow> map_throwing f xs = Inr (map (\<lambda>x. projr (f x)) xs)"
  by (induction xs) auto

lemma Math_min_Min: "Math_min t ts = Min (set (t # ts))"
proof -
  have "fold min ts t = Min (set (t # ts))"
    by (rule Min.set_eq_fold [symmetric])
  then show ?thesis by (simp add: Math_min_def)
qed

lemma Math_max_Max: "Math_max t ts = Max (set (t # ts))"
proof -
  have "fold max ts t = Max (set (t # ts))"
    by (rule Max.set_eq_fold [symmetric])
  then show ?thesis by (simp add: Math_max_def)
qed



lemma day_record_total: "items \<noteq> [] \<Longrightarrow> \<exists>r. day_record (date, items) = Inr r"
  by (cases items) (simp_all add: day_record_def Let_def)

lemma day_record_dt: "day_record (date, items) = Inr r \<Longrightarrow> fd_dt r = date * 86400"
  by (auto simp: day_record_def Let_def Date_getTime_def split: list.splits)

lemma day_record_min:
  "day_record (date, items) = Inr r \<Longrightarrow>
   t_min (fd_temp r) = Min (set (map (\<lambda>x. temp (main x)) items))"
  by (auto simp: day_record_def Let_def Math_min_Min split: list.splits)

lemma day_record_max:
  "day_record (date, items) = Inr r \<Longrightarrow>
   t_max (fd_temp r) = Max (set (map (\<lambda>x. temp (main x)) items))"
  by (auto simp: day_record_def Let_def Math_max_Max split: list.splits)


lemma day_record_snapshots:
  assumes "day_record (date, items) = Inr r"
  shows "t_day (fd_temp r) = temp (main (items ! nat (int (length items) div 2)))"
    and "t_morn (fd_temp r) = snapshot items 0 temp (t_day (fd_temp r))"
    and "t_eve (fd_temp r) =
           snapshot items (min (int (length items) - 1) (int (length items) div 2 + 2)) temp
             (t_day (fd_temp r))"
    and "t_night (fd_temp r) = snapshot items (int (length items) - 1) temp (t_day (fd_temp r))"
  using assms by (auto simp: day_record_def Let_def split: list.splits)

lemma mid_index_in_range: "items \<noteq> [] \<Longrightarrow> nat (int (length items) div 2) < length items"
  by (cases items) auto

lemma snapshot_in_items:
  assumes "items \<noteq> []"
  shows "snapshot items i field (field (main (items ! nat (int (length items) div 2))))
           \<in> set (map (\<lambda>x. field (main x)) items)"
proof (cases "0 \<le> i \<and> i < int (length items)")
  case True
  then have "nat i < length items" by auto
  with mid_index_in_range [OF assms] show ?thesis
    by (auto simp: snapshot_def or_num_def)
next
  case False
  with mid_index_in_range [OF assms] show ?thesis
    by (auto simp: snapshot_def)
qed

subsection \<open>The whole function\<close>

lemma processForecastData_grouped:
  assumes "\<forall>x\<in>set xs. valid_timestamp x"
  shows "processForecastData xs = Inr (map (\<lambda>e. projr (day_record e)) (grouped xs))"
proof -
  have g: "group_by_day [] xs = Inr (grouped xs)"
    using assms by (simp add: group_by_day_fold grouped_def)
  have "\<forall>e\<in>set (grouped xs). \<exists>r. day_record e = Inr r"
  proof
    fix e assume e: "e \<in> set (grouped xs)"
    obtain k its where [simp]: "e = (k, its)" by (cases e)
    from e have "its \<noteq> []" by (simp add: grouped_entry(2))
    then show "\<exists>r. day_record e = Inr r" by (simp add: day_record_total)
  qed
  then have "map_throwing day_record (grouped xs)
               = Inr (map (\<lambda>e. projr (day_record e)) (grouped xs))"
    by (rule map_throwing_all_Inr)
  with g show ?thesis by (simp add: processForecastData_def)
qed

text \<open>Every output record is the record of one day of the input and of exactly its items.\<close>

lemma processForecastData_record:
  assumes "\<forall>x\<in>set xs. valid_timestamp x" and "processForecastData xs = Inr out"
    and "r \<in> set out"
  shows "day_items (fd_dt r div 86400) xs \<noteq> [] \<and>
         day_record (fd_dt r div 86400, day_items (fd_dt r div 86400) xs) = Inr r"
proof -
  from assms(1,2) have "out = map (\<lambda>e. projr (day_record e)) (grouped xs)"
    by (simp add: processForecastData_grouped)
  with assms(3) obtain e where e: "e \<in> set (grouped xs)" and r: "r = projr (day_record e)"
    by auto
  obtain k its where ke: "e = (k, its)" by (cases e)
  from e ke have its: "its = day_items k xs" "its \<noteq> []"
    by (simp_all add: grouped_entry)
  from its(2) obtain r' where r': "day_record (k, its) = Inr r'"
    using day_record_total by blast
  with r ke have rr: "day_record (k, its) = Inr r" by simp
  then have "fd_dt r = k * 86400" by (rule day_record_dt)
  then have "fd_dt r div 86400 = k" by simp
  with rr its show ?thesis by simp
qed

lemma processForecastData_days:
  assumes "\<forall>x\<in>set xs. valid_timestamp x" and "processForecastData xs = Inr out"
  shows "map fd_dt out = map (\<lambda>k. k * 86400) (map fst (grouped xs))"
proof -
  from assms have out: "out = map (\<lambda>e. projr (day_record e)) (grouped xs)"
    by (simp add: processForecastData_grouped)
  have "fd_dt (projr (day_record e)) = fst e * 86400" if "e \<in> set (grouped xs)" for e
  proof -
    obtain k its where ke: "e = (k, its)" by (cases e)
    with that have "its \<noteq> []" by (simp add: grouped_entry(2))
    then obtain r where "day_record (k, its) = Inr r"
      using day_record_total by blast
    then show ?thesis using ke by (simp add: day_record_dt)
  qed
  with out show ?thesis by simp
qed

text \<open>A sample whose time \<open>Date\<close> cannot hold makes the function throw.\<close>

lemma processForecastData_invalid:
  "\<not> valid_timestamp x \<Longrightarrow> processForecastData (x # xs) = Inl RangeError"
  by (simp add: processForecastData_def toISOString_date_invalid)

lemma length_filter_distinct_key:
  assumes "distinct (map f xs)" and "d \<in> set (map f xs)"
  shows "length (filter (\<lambda>r. f r = d) xs) = 1"
proof -
  have "length (filter (\<lambda>r. f r = d) xs) = length (filter (\<lambda>y. y = d) (map f xs))"
    by (induction xs) simp_all
  also have "\<dots> = card ({y. y = d} \<inter> set (map f xs))"
    using assms(1) by (rule distinct_length_filter)
  also have "{y. y = d} \<inter> set (map f xs) = {d}"
    using assms(2) by auto
  finally show ?thesis by simp
qed

lemma example_forecast_valid: "list_all valid_timestamp example_forecast"
  by (simp add: example_forecast_def sample_def valid_timestamp_def)

text \<open>
  Claim C1. For every list of forecast samples whose times are dates, the function
  returns, and its records are the calendar days (UTC) of the samples: the day starts
  \<open>fd_dt\<close> of the records are distinct, they are exactly the day starts of the samples,
  there are as many records as distinct days, every sample falls in exactly one record,
  and \<open>temp.min\<close> and \<open>temp.max\<close> of a record are the least and the greatest
  \<open>main.temp\<close> among the samples of that record's day, which are not empty.
\<close>

theorem processForecastData_groups_by_utc_day:
  assumes "list_all valid_timestamp xs"
  shows "\<exists>out. processForecastData xs = Inr out
     \<and> distinct (map fd_dt out)
     \<and> set (map fd_dt out) = (\<lambda>x. utc_day x * 86400) ` set xs
     \<and> length out = card (utc_day ` set xs)
     \<and> (\<forall>x\<in>set xs. length (filter (\<lambda>r. fd_dt r = utc_day x * 86400) out) = 1)
     \<and> (\<forall>r\<in>set out.
          day_items (fd_dt r div 86400) xs \<noteq> []
        \<and> t_min (fd_temp r)
            = Min (set (map (\<lambda>x. temp (main x)) (day_items (fd_dt r div 86400) xs)))
        \<and> t_max (fd_temp r)
            = Max (set (map (\<lambda>x. temp (main x)) (day_items (fd_dt r div 86400) xs))))"
proof -
  from assms have valid: "\<forall>x\<in>set xs. valid_timestamp x"
    by (simp add: list_all_iff)
  define out where "out = map (\<lambda>e. projr (day_record e)) (grouped xs)"
  have res: "processForecastData xs = Inr out"
    using valid by (simp add: processForecastData_grouped out_def)
  have days: "map fd_dt out = map (\<lambda>k. k * 86400) (map fst (grouped xs))"
    using valid res by (rule processForecastData_days)
  have "inj_on (\<lambda>k::int. k * 86400) (set (map fst (grouped xs)))"
    by (rule inj_onI) simp
  with grouped_distinct [of xs] have d: "distinct (map fd_dt out)"
    unfolding days by (simp only: distinct_map)
  have s: "set (map fd_dt out) = (\<lambda>x. utc_day x * 86400) ` set xs"
  proof -
    have "set (map fd_dt out) = (\<lambda>k. k * 86400) ` set (map fst (grouped xs))"
      unfolding days by (simp only: set_map)
    also have "\<dots> = (\<lambda>k. k * 86400) ` utc_day ` set xs"
      by (simp only: grouped_keys)
    finally show ?thesis by (simp add: image_image)
  qed
  have l: "length out = card (utc_day ` set xs)"
  proof -
    have "length out = length (map fst (grouped xs))"
      by (simp add: out_def)
    also have "\<dots> = card (set (map fst (grouped xs)))"
      using grouped_distinct [of xs] by (rule distinct_card [symmetric])
    finally show ?thesis by (simp only: grouped_keys)
  qed
  have one: "\<forall>x\<in>set xs. length (filter (\<lambda>r. fd_dt r = utc_day x * 86400) out) = 1"
  proof
    fix x assume "x \<in> set xs"
    with s have "utc_day x * 86400 \<in> set (map fd_dt out)" by blast
    with d show "length (filter (\<lambda>r. fd_dt r = utc_day x * 86400) out) = 1"
      by (rule length_filter_distinct_key)
  qed
  have mm: "\<forall>r\<in>set out.
          day_items (fd_dt r div 86400) xs \<noteq> []
        \<and> t_min (fd_temp r)
            = Min (set (map (\<lambda>x. temp (main x)) (day_items (fd_dt r div 86400) xs)))
        \<and> t_max (fd_temp r)
            = Max (set (map (\<lambda>x. temp (main x)) (day_items (fd_dt r div 86400) xs)))"
  proof
    fix r assume "r \<in> set out"
    with valid res
    have "day_items (fd_dt r div 86400) xs \<noteq> [] \<and>
         day_record (fd_dt r div 86400, day_items (fd_dt r div 86400) xs) = Inr r"
      by (rule processForecastData_record)
    then show "day_items (fd_dt r div 86400) xs \<noteq> []
        \<and> t_min (fd_temp r)
            = Min (set (map (\<lambda>x. temp (main x)) (day_items (fd_dt r div 86400) xs)))
        \<and> t_max (fd_temp r)
            = Max (set (map (\<lambda>x. temp (main x)) (day_items (fd_dt r div 86400) xs)))"
      using day_record_min day_record_max by blast
  qed
  from res d s l one mm show ?thesis by blast
qed

theorem processForecastData_groups_by_utc_day_witness:
  "list_all valid_timestamp example_forecast
   \<and> (\<exists>out. processForecastData example_forecast = Inr out
     \<and> distinct (map fd_dt out)
     \<and> set (map fd_dt out) = (\<lambda>x. utc_day x * 86400) ` set example_forecast
     \<and> length out = card (utc_day ` set example_forecast)
     \<and> (\<forall>x\<in>set example_forecast.
           length (filter (\<lambda>r. fd_dt r = utc_day x * 86400) out) = 1)
     \<and> (\<forall>r\<in>set out.
          day_items (fd_dt r div 86400) example_forecast \<noteq> []
        \<and> t_min (fd_temp r)
            = Min (set (map (\<lambda>x. temp (main x))
                 (day_items (fd_dt r div 86400) example_forecast)))
        \<and> t_max (fd_temp r)
            = Max (set (map (\<lambda>x. temp (main x))
                 (day_items (fd_dt r div 86400) example_forecast)))))"
proof
  show "list_all valid_timestamp example_forecast"
    by (fact example_forecast_valid)
  show "\<exists>out. processForecastData example_forecast = Inr out
     \<and> distinct (map fd_dt out)
     \<and> set (map fd_dt out) = (\<lambda>x. utc_day x * 86400) ` set example_forecast
     \<and> length out = card (utc_day ` set example_forecast)
     \<and> (\<forall>x\<in>set example_forecast.
           length (filter (\<lambda>r. fd_dt r = utc_day x * 86400) out) = 1)
     \<and> (\<forall>r\<in>set out.
          day_items (fd_dt r div 86400) example_forecast \<noteq> []
        \<and> t_min (fd_temp r)
            = Min (set (map (\<lambda>x. temp (main x))
                 (day_items (fd_dt r div 86400) example_forecast)))
        \<and> t_max (fd_temp r)
            = Max (set (map (\<lambda>x. temp (main x))
                 (day_items (fd_dt r div 86400) example_forecast))))"
    using example_forecast_valid by (rule processForecastData_groups_by_utc_day)
qed




text \<open>How the snapshots are chosen: by index, but a temperature of 0 gives way to the
  temperature of the middle sample.\<close>

lemma processForecastData_snapshots:
  assumes "list_all valid_timestamp xs" and "processForecastData xs = Inr out"
    and "r \<in> set out" and "items = day_items (fd_dt r div 86400) xs"
    and "n = length items"
  shows "t_day (fd_temp r) = temp (main (items ! (n div 2)))"
    and "t_morn (fd_temp r) = or_num (temp (main (items ! 0))) (t_day (fd_temp r))"
    and "t_eve (fd_temp r)
           = or_num (temp (main (items ! min (n - 1) (n div 2 + 2)))) (t_day (fd_temp r))"
    and "t_night (fd_temp r) = or_num (temp (main (items ! (n - 1)))) (t_day (fd_temp r))"
proof -
  from assms(1) have valid: "\<forall>x\<in>set xs. valid_timestamp x"
    by (simp add: list_all_iff)
  from processForecastData_record [OF valid assms(2,3)] assms(4)
  have ne: "items \<noteq> []" and rec: "day_record (fd_dt r div 86400, items) = Inr r"
    by simp_all
  from ne assms(5) have n: "0 < n" by simp
  have mid: "nat (int n div 2) = n div 2" by (simp add: nat_div_distrib)
  from day_record_snapshots(1) [OF rec] show d: "t_day (fd_temp r) = temp (main (items ! (n div 2)))"
    using assms(5) mid by simp
  from day_record_snapshots(2) [OF rec] n assms(5)
  show "t_morn (fd_temp r) = or_num (temp (main (items ! 0))) (t_day (fd_temp r))"
    by (simp add: snapshot_def)
  have e: "nat (min (int n - 1) (int n div 2 + 2)) = min (n - 1) (n div 2 + 2)"
    using n by (simp add: min_def nat_div_distrib nat_add_distrib nat_diff_distrib) linarith
  have "0 \<le> min (int n - 1) (int n div 2 + 2)" "min (int n - 1) (int n div 2 + 2) < int n"
    using n by auto
  with day_record_snapshots(3) [OF rec] assms(5) e
  show "t_eve (fd_temp r)
           = or_num (temp (main (items ! min (n - 1) (n div 2 + 2)))) (t_day (fd_temp r))"
    by (simp add: snapshot_def)
  have "nat (int n - 1) = n - 1" by simp
  with day_record_snapshots(4) [OF rec] n assms(5)
  show "t_night (fd_temp r) = or_num (temp (main (items ! (n - 1)))) (t_day (fd_temp r))"
    by (simp add: snapshot_def)
qed

text \<open>
  Claim C3, evaluated on a day whose first and last samples are at 0 degrees and whose
  middle sample is at 7: \<open>temp.morn\<close>, \<open>temp.eve\<close> and \<open>temp.night\<close> are 7, the
  temperature of the middle sample, and not 0, the temperature of the samples at
  indices 0 and 2 that the claim names.
\<close>

theorem processForecastData_zero_degrees:
  "map (\<lambda>x. temp (main x)) freezing_day = [0, 7, 0]
   \<and> map_sum id (map (\<lambda>r. (t_morn (fd_temp r), t_day (fd_temp r), t_eve (fd_temp r),
                           t_night (fd_temp r), t_min (fd_temp r), t_max (fd_temp r))))
       (processForecastData freezing_day) = Inr [(7, 7, 7, 7, 0, 7)]"
  by (simp add: freezing_day_def sample_def processForecastData_def toISOString_date_def
      push_item_def day_record_def Let_def Math_min_def Math_max_def Date_getTime_def
      or_opt_def or_num_def snapshot_def)

text \<open>
  Claim C8. For every output day, each of \<open>temp.morn\<close>, \<open>temp.day\<close>, \<open>temp.eve\<close> and
  \<open>temp.night\<close> is the temperature of some sample of that day, and so lies between
  \<open>temp.min\<close> and \<open>temp.max\<close>.
\<close>

theorem processForecastData_snapshots_within_bounds:
  assumes "list_all valid_timestamp xs"
  shows "\<exists>out. processForecastData xs = Inr out
     \<and> (\<forall>r\<in>set out.
          \<forall>v\<in>set [t_morn (fd_temp r), t_day (fd_temp r), t_eve (fd_temp r),
                    t_night (fd_temp r)].
            v \<in> set (map (\<lambda>x. temp (main x)) (day_items (fd_dt r div 86400) xs))
          \<and> t_min (fd_temp r) \<le> v \<and> v \<le> t_max (fd_temp r))"
proof -
  from assms have valid: "\<forall>x\<in>set xs. valid_timestamp x"
    by (simp add: list_all_iff)
  then obtain out where res: "processForecastData xs = Inr out"
    by (simp add: processForecastData_grouped)
  have "v \<in> set (map (\<lambda>x. temp (main x)) (day_items (fd_dt r div 86400) xs))
          \<and> t_min (fd_temp r) \<le> v \<and> v \<le> t_max (fd_temp r)"
    if r: "r \<in> set out"
      and v: "v \<in> set [t_morn (fd_temp r), t_day (fd_temp r), t_eve (fd_temp r),
                    t_night (fd_temp r)]" for r v
  proof -
    define items where "items = day_items (fd_dt r div 86400) xs"
    define temps where "temps = map (\<lambda>x. temp (main x)) items"
    from processForecastData_record [OF valid res r]
    have ne: "items \<noteq> []" and rec: "day_record (fd_dt r div 86400, items) = Inr r"
      by (simp_all add: items_def)
    note snap = day_record_snapshots [OF rec]
    have day: "t_day (fd_temp r) \<in> set temps"
      using mid_index_in_range [OF ne] by (simp add: snap(1) temps_def)
    have any: "snapshot items i temp (t_day (fd_temp r)) \<in> set temps" for i
      using snapshot_in_items [OF ne, of i temp] by (simp add: snap(1) temps_def)
    from v day any have mem: "v \<in> set temps"
      by (auto simp: snap(2,3,4))
    have "t_min (fd_temp r) = Min (set temps)" and "t_max (fd_temp r) = Max (set temps)"
      using day_record_min [OF rec] day_record_max [OF rec] by (simp_all add: temps_def)
    with mem have "t_min (fd_temp r) \<le> v \<and> v \<le> t_max (fd_temp r)"
      by simp
    with mem show ?thesis by (simp add: temps_def items_def)
  qed
  with res show ?thesis by blast
qed

theorem processForecastData_snapshots_within_bounds_witness:
  "\<exists>out. processForecastData freezing_day = Inr out
     \<and> out \<noteq> []
     \<and> (\<forall>r\<in>set out.
          \<forall>v\<in>set [t_morn (fd_temp r), t_day (fd_temp r), t_eve (fd_temp r),
                    t_night (fd_temp r)].
            v \<in> set (map (\<lambda>x. temp (main x)) (day_items (fd_dt r div 86400) freezing_day))
          \<and> t_min (fd_temp r) \<le> v \<and> v \<le> t_max (fd_temp r))"
proof -
  have valid: "list_all valid_timestamp freezing_day"
    by (simp add: freezing_day_def sample_def valid_timestamp_def)
  from processForecastData_snapshots_within_bounds [OF valid]
  obtain out where out: "processForecastData freezing_day = Inr out"
    and within: "\<forall>r\<in>set out.
          \<forall>v\<in>set [t_morn (fd_temp r), t_day (fd_temp r), t_eve (fd_temp r),
                    t_night (fd_temp r)].
            v \<in> set (map (\<lambda>x. temp (main x)) (day_items (fd_dt r div 86400) freezing_day))
          \<and> t_min (fd_temp r) \<le> v \<and> v \<le> t_max (fd_temp r)"
    by blast
  have "map_sum id length (processForecastData freezing_day) = Inr 1"
    by (simp add: freezing_day_def sample_def processForecastData_def toISOString_date_def
        push_item_def day_record_def Let_def)
  with out have "out \<noteq> []" by auto
  with out within show ?thesis by blast
qed

section \<open>Properties of the fetching functions\<close>

subsection \<open>Fetching and catching\<close>


lemma fetch_json_Inr_iff:
  "fetch_json msg r = Inr d \<longleftrightarrow> (\<exists>status. r = Response status (Some d) \<and> response_ok status)"
  by (auto simp: fetch_json_def split: fetch_result.splits option.splits)

lemma fetch_json_Inl_iff: "(\<exists>e. fetch_json msg r = Inl e) \<longleftrightarrow> fetch_failed r"
  by (auto simp: fetch_json_def fetch_failed_def split: fetch_result.splits option.splits)

lemma fetch_json_ok:
  "r = Response status (Some d) \<Longrightarrow> response_ok status \<Longrightarrow> fetch_json msg r = Inr d"
  by (simp add: fetch_json_def)

lemma fetch_failed_cases:
  "fetch_failed r \<or> (\<exists>status d. r = Response status (Some d) \<and> response_ok status)"
  by (auto simp: fetch_failed_def split: fetch_result.splits)

lemma try_catch_Inr: "outcome body = Inr v \<Longrightarrow> try_catch body handler = body"
  by (simp add: try_catch_def)

lemma try_catch_Inl:
  "outcome body = Inl e \<Longrightarrow>
   try_catch body handler =
     \<lparr> requests = requests body @ requests (handler e),
       logged = logged body @ logged (handler e),
       outcome = outcome (handler e) \<rparr>"
  by (simp add: try_catch_def)

subsection \<open>fetchCities\<close>

lemma fetchCities_requests:
  "requests (fetchCities w params) = [CitiesRequest (cities_dataset # queryParams params)]"
  by (simp add: fetchCities_def try_catch_def fetchCities_try_def split: sum.splits)

lemma queryParams_start:
  "map_of (cities_dataset # queryParams params) ''start''
     = Some (Number_toString (offset_of params))"
  by (simp add: cities_dataset_def queryParams_def)

lemma queryParams_sort:
  "map_of (cities_dataset # queryParams params) ''sort''
     = Some (if sortDirection_of params = desc then ''-'' @ sortField_of params
             else sortField_of params)"
  by (simp add: cities_dataset_def queryParams_def)

lemma fetchCities_ok:
  assumes "cities_api w (cities_dataset # queryParams params) = Response status (Some data)"
    and "response_ok status"
  shows "outcome (fetchCities w params) =
           Inr \<lparr> cities = map city_of_record (records data),
                 hasMore = (offset_of params + int (length (records data)) < nhits data),
                 total = nhits data \<rparr>"
    and "logged (fetchCities w params) = []"
  using assms
  by (simp_all add: fetchCities_def try_catch_def fetchCities_try_def fetch_json_def)

lemma fetchCities_failed:
  assumes "fetch_failed (cities_api w (cities_dataset # queryParams params))"
  shows "outcome (fetchCities w params) = Inr (mockCities w params)"
    and "\<exists>e. logged (fetchCities w params) = [console_error ''Error fetching cities:'' e]"
proof -
  from assms obtain e where
    "fetch_json ''Failed to fetch cities: '' (cities_api w (cities_dataset # queryParams params))
       = Inl e"
    using fetch_json_Inl_iff by blast
  then have "outcome (fetchCities_try w params) = Inl e" "logged (fetchCities_try w params) = []"
    by (simp_all add: fetchCities_try_def)
  then show "outcome (fetchCities w params) = Inr (mockCities w params)"
    and "\<exists>e. logged (fetchCities w params) = [console_error ''Error fetching cities:'' e]"
    by (simp_all add: fetchCities_def try_catch_def)
qed

text \<open>
  Claim C7. When the city directory answers with a status in 200-299 and a JSON body, the
  one request sent carries \<open>start\<close> = (page - 1) * limit and a \<open>sort\<close> parameter that
  is the sort field, with \<open>-\<close> before it exactly when the direction is \<open>desc\<close>; the
  result's \<open>total\<close> is \<open>nhits\<close> and \<open>hasMore\<close> says whether (page - 1) * limit plus the
  number of returned cities is below \<open>nhits\<close>.
\<close>

theorem fetchCities_success:
  assumes "cities_api w (cities_dataset # queryParams params) = Response status (Some data)"
    and "response_ok status"
  shows "requests (fetchCities w params) = [CitiesRequest (cities_dataset # queryParams params)]
     \<and> map_of (cities_dataset # queryParams params) ''start''
         = Some (Number_toString ((page_of params - 1) * limit_of params))
     \<and> map_of (cities_dataset # queryParams params) ''sort''
         = Some (if sortDirection_of params = desc then ''-'' @ sortField_of params
                 else sortField_of params)
     \<and> (\<exists>res. outcome (fetchCities w params) = Inr res
          \<and> cities res = map city_of_record (records data)
          \<and> total res = nhits data
          \<and> hasMore res
              = ((page_of params - 1) * limit_of params + int (length (cities res))
                  < nhits data))"
  using fetchCities_requests [of w params] queryParams_start [of params]
    queryParams_sort [of params] fetchCities_ok(1) [OF assms]
  by (simp add: offset_of_def)

theorem fetchCities_success_witness:
  "requests (fetchCities example_world example_params)
      = [CitiesRequest
           [(''dataset'', ''geonames-all-cities-with-a-population-1000''),
            (''rows'', ''20''), (''start'', ''40''), (''sort'', ''-name''),
            (''refine.cou_name_en'', ''India''), (''format'', ''json'')]]
   \<and> (\<exists>res. outcome (fetchCities example_world example_params) = Inr res
          \<and> cities res = [example_city]
          \<and> total res = 45
          \<and> hasMore res)"
proof -
  have a: "cities_api example_world (cities_dataset # queryParams example_params)
         = Response 200 (Some \<lparr> records = [example_record], nhits = 45 \<rparr>)"
    by (simp add: example_world_def)
  have b: "response_ok 200" by (simp add: response_ok_def)
  have q: "cities_dataset # queryParams example_params
      = [(''dataset'', ''geonames-all-cities-with-a-population-1000''),
            (''rows'', ''20''), (''start'', ''40''), (''sort'', ''-name''),
            (''refine.cou_name_en'', ''India''), (''format'', ''json'')]"
    by (simp add: cities_dataset_def queryParams_def example_params_def limit_of_def
        offset_of_def page_of_def search_of_def sortDirection_of_def sortField_of_def
        Number_toString_def digits_of.simps)
  have c: "city_of_record example_record = example_city"
    by (simp add: city_of_record_def example_record_def example_city_def or_opt_def
        or_num_def or_str_def)
  have p: "page_of example_params = 3" "limit_of example_params = 20"
    by (simp_all add: example_params_def page_of_def limit_of_def)
  from fetchCities_success [OF a b]
  have r: "requests (fetchCities example_world example_params)
             = [CitiesRequest (cities_dataset # queryParams example_params)]"
    and "\<exists>res. outcome (fetchCities example_world example_params) = Inr res
          \<and> cities res = map city_of_record (records \<lparr> records = [example_record], nhits = 45 \<rparr>)
          \<and> total res = nhits \<lparr> records = [example_record], nhits = 45 \<rparr>
          \<and> hasMore res
              = ((page_of example_params - 1) * limit_of example_params + int (length (cities res))
                  < nhits \<lparr> records = [example_record], nhits = 45 \<rparr>)"
    by blast+
  then obtain res where "outcome (fetchCities example_world example_params) = Inr res"
    and "cities res = [example_city]" and "total res = 45"
    and "hasMore res = ((3 - 1) * 20 + int (length (cities res)) < 45)"
    by (auto simp: c p)
  then have "outcome (fetchCities example_world example_params) = Inr res
          \<and> cities res = [example_city] \<and> total res = 45 \<and> hasMore res"
    by simp
  with r q show ?thesis by auto
qed

subsection \<open>getCityById\<close>

lemma getCityById_ok:
  assumes "cities_api w [cities_dataset, (''q'', ''recordid:'' @ ident)] = Response status (Some data)"
    and "response_ok status"
  shows "outcome (getCityById w ident) =
           Inr (case records data of [] \<Rightarrow> None | record # _ \<Rightarrow> Some (city_of_record record))"
    and "logged (getCityById w ident) = []"
  using assms
  by (simp_all add: getCityById_def try_catch_def getCityById_try_def fetch_json_def
      split: list.splits)

lemma getCityById_failed:
  assumes "fetch_failed (cities_api w [cities_dataset, (''q'', ''recordid:'' @ ident)])"
  shows "outcome (getCityById w ident) =
           Inr (if startsWith ident ''mock-'' then Some (mock_city_by_id w ident) else None)"
    and "\<exists>e. logged (getCityById w ident) = [console_error ''Error fetching city by ID:'' e]"
proof -
  from assms obtain e where
    "fetch_json ''Failed to fetch city: ''
       (cities_api w [cities_dataset, (''q'', ''recordid:'' @ ident)]) = Inl e"
    using fetch_json_Inl_iff by blast
  then have "outcome (getCityById_try w ident) = Inl e" "logged (getCityById_try w ident) = []"
    by (simp_all add: getCityById_try_def)
  then show "outcome (getCityById w ident) =
           Inr (if startsWith ident ''mock-'' then Some (mock_city_by_id w ident) else None)"
    and "\<exists>e. logged (getCityById w ident) = [console_error ''Error fetching city by ID:'' e]"
    by (simp_all add: getCityById_def try_catch_def)
qed

lemma fetch_failed_not_ok:
  "fetch_failed r \<Longrightarrow> \<not> (r = Response status (Some d) \<and> response_ok status)"
  by (auto simp: fetch_failed_def)

text \<open>
  Claim C10. The promise of \<open>getCityById\<close> never rejects. It resolves to \<open>null\<close> when
  the query succeeds with no record and when the fetch fails for an id that does not
  start with \<open>mock-\<close>; it resolves to a city only after a successful lookup (the first
  record) or after a failed fetch for an id that starts with \<open>mock-\<close> (the mock city),
  and in both of these cases it does.
\<close>

theorem getCityById_never_throws:
  fixes w :: world and ident :: string
  defines "q \<equiv> [cities_dataset, (''q'', ''recordid:'' @ ident)]"
  shows "(\<exists>res. outcome (getCityById w ident) = Inr res)
     \<and> (\<forall>status data. cities_api w q = Response status (Some data) \<and> response_ok status
            \<and> records data = []
          \<longrightarrow> outcome (getCityById w ident) = Inr None)
     \<and> (fetch_failed (cities_api w q) \<and> \<not> startsWith ident ''mock-''
          \<longrightarrow> outcome (getCityById w ident) = Inr None)
     \<and> (\<forall>c. outcome (getCityById w ident) = Inr (Some c)
          \<longrightarrow> (\<exists>status data record rest. cities_api w q = Response status (Some data)
                  \<and> response_ok status \<and> records data = record # rest
                  \<and> c = city_of_record record)
              \<or> (fetch_failed (cities_api w q) \<and> startsWith ident ''mock-''
                  \<and> c = mock_city_by_id w ident))
     \<and> (\<forall>status data record rest. cities_api w q = Response status (Some data)
            \<and> response_ok status \<and> records data = record # rest
          \<longrightarrow> outcome (getCityById w ident) = Inr (Some (city_of_record record)))
     \<and> (fetch_failed (cities_api w q) \<and> startsWith ident ''mock-''
          \<longrightarrow> outcome (getCityById w ident) = Inr (Some (mock_city_by_id w ident)))"
proof -
  let ?out = "outcome (getCityById w ident)"
  let ?found = "\<lambda>c. \<exists>status data record rest. cities_api w q = Response status (Some data)
                  \<and> response_ok status \<and> records data = record # rest
                  \<and> c = city_of_record record"
  show ?thesis
  proof (cases "fetch_failed (cities_api w q)")
    case True
    from getCityById_failed(1) [of w ident] True
    have out: "?out = Inr (if startsWith ident ''mock-'' then Some (mock_city_by_id w ident)
                           else None)"
      by (simp add: q_def)
    note no = fetch_failed_not_ok [OF True]
    have c1: "\<exists>res. ?out = Inr res" using out by simp
    have c2: "\<forall>status data. cities_api w q = Response status (Some data) \<and> response_ok status
            \<and> records data = [] \<longrightarrow> ?out = Inr None"
      using no by blast
    have c3: "fetch_failed (cities_api w q) \<and> \<not> startsWith ident ''mock-'' \<longrightarrow> ?out = Inr None"
      using out by simp
    have c4: "\<forall>c. ?out = Inr (Some c) \<longrightarrow> ?found c
              \<or> (fetch_failed (cities_api w q) \<and> startsWith ident ''mock-''
                  \<and> c = mock_city_by_id w ident)"
      using out True by (simp split: if_splits)
    have c5: "\<forall>status data record rest. cities_api w q = Response status (Some data)
            \<and> response_ok status \<and> records data = record # rest
          \<longrightarrow> ?out = Inr (Some (city_of_record record))"
      using no by blast
    have c6: "fetch_failed (cities_api w q) \<and> startsWith ident ''mock-''
          \<longrightarrow> ?out = Inr (Some (mock_city_by_id w ident))"
      using out by simp
    from c1 c2 c3 c4 c5 c6 show ?thesis by (intro conjI)
  next
    case False
    with fetch_failed_cases [of "cities_api w q"] obtain status data
      where ok: "cities_api w q = Response status (Some data)" "response_ok status"
      by blast
    from getCityById_ok(1) [of w ident status data] ok
    have out: "?out = Inr (case records data of [] \<Rightarrow> None
                           | record # _ \<Rightarrow> Some (city_of_record record))"
      by (simp add: q_def)
    have c1: "\<exists>res. ?out = Inr res" using out by simp
    have c2: "\<forall>status data. cities_api w q = Response status (Some data) \<and> response_ok status
            \<and> records data = [] \<longrightarrow> ?out = Inr None"
      using out ok(1) by simp
    have c3: "fetch_failed (cities_api w q) \<and> \<not> startsWith ident ''mock-'' \<longrightarrow> ?out = Inr None"
      using False by simp
    have c4: "\<forall>c. ?out = Inr (Some c) \<longrightarrow> ?found c
              \<or> (fetch_failed (cities_api w q) \<and> startsWith ident ''mock-''
                  \<and> c = mock_city_by_id w ident)"
    proof (intro allI impI)
      fix c assume "?out = Inr (Some c)"
      with out obtain first rest where "records data = first # rest" "c = city_of_record first"
        by (cases "records data") simp_all
      with ok have "?found c" by blast
      then show "?found c \<or> (fetch_failed (cities_api w q) \<and> startsWith ident ''mock-''
                  \<and> c = mock_city_by_id w ident)" ..
    qed
    have c5: "\<forall>status data record rest. cities_api w q = Response status (Some data)
            \<and> response_ok status \<and> records data = record # rest
          \<longrightarrow> ?out = Inr (Some (city_of_record record))"
      using out ok(1) by simp
    have c6: "fetch_failed (cities_api w q) \<and> startsWith ident ''mock-''
          \<longrightarrow> ?out = Inr (Some (mock_city_by_id w ident))"
      using False by simp
    from c1 c2 c3 c4 c5 c6 show ?thesis by (intro conjI)
  qed
qed


lemma city_of_example_record: "city_of_record example_record = example_city"
  by (simp add: city_of_record_def example_record_def example_city_def or_opt_def
      or_num_def or_str_def)

lemma response_ok_200: "response_ok 200"
  by (simp add: response_ok_def)

theorem getCityById_never_throws_witness:
  "outcome (getCityById empty_world ''r9'') = Inr None
   \<and> outcome (getCityById offline_world ''abc'') = Inr None
   \<and> outcome (getCityById offline_world ''mock-41'')
       = Inr (Some (mock_city_by_id offline_world ''mock-41''))
   \<and> name (mock_city_by_id offline_world ''mock-41'') = ''City 42''
   \<and> outcome (getCityById example_world ''r1'') = Inr (Some example_city)"
proof -
  have "cities_api empty_world [cities_dataset, (''q'', ''recordid:'' @ ''r9'')]
          = Response 200 (Some \<lparr> records = [], nhits = 0 \<rparr>)"
    by (simp add: empty_world_def offline_world_def)
  with getCityById_never_throws [of empty_world "''r9''"] response_ok_200
  have a: "outcome (getCityById empty_world ''r9'') = Inr None"
    by simp
  have off: "fetch_failed (cities_api offline_world q)" for q
    by (simp add: offline_world_def fetch_failed_def)
  have "\<not> startsWith ''abc'' ''mock-''"
    by (simp add: startsWith_def)
  with getCityById_never_throws [of offline_world "''abc''"] off
  have b: "outcome (getCityById offline_world ''abc'') = Inr None"
    by blast
  have "startsWith ''mock-41'' ''mock-''"
    by (simp add: startsWith_def)
  with getCityById_never_throws [of offline_world "''mock-41''"] off
  have c: "outcome (getCityById offline_world ''mock-41'')
       = Inr (Some (mock_city_by_id offline_world ''mock-41''))"
    by blast
  have d: "name (mock_city_by_id offline_world ''mock-41'') = ''City 42''"
    by (simp add: mock_city_by_id_def parseInt_def is_white_space_def digit_value_def
        Number_toString_def digits_of.simps Let_def)
  have "cities_api example_world [cities_dataset, (''q'', ''recordid:'' @ ''r1'')]
          = Response 200 (Some \<lparr> records = [example_record], nhits = 45 \<rparr>)"
    by (simp add: example_world_def)
  with getCityById_never_throws [of example_world "''r1''"] response_ok_200
  have e: "outcome (getCityById example_world ''r1'') = Inr (Some example_city)"
    by (simp add: city_of_example_record)
  from a b c d e show ?thesis by simp
qed

subsection \<open>fetchWeatherForCities\<close>

lemma city_weather_task_outcome:
  "outcome (city_weather_task w apiKey u i city) = Inr (city_result w apiKey u i city)"
  by (simp add: city_weather_task_def try_catch_def city_weather_try_def fetch_json_def
      updateCityWeather_def city_result_def
      split: fetch_result.splits option.splits sum.splits)

lemma city_weather_task_requests:
  "requests (city_weather_task w apiKey u i city)
     = [WeatherRequest (latitude city) (longitude city) u apiKey]"
  by (simp add: city_weather_task_def try_catch_def city_weather_try_def split: sum.splits)

lemma city_weather_task_logged:
  assumes "fetch_failed (weather_api w i (latitude city, longitude city, u, apiKey))"
  shows "\<exists>e. logged (city_weather_task w apiKey u i city)
           = [console_error (''Error fetching weather for '' @ name city @ '':'') e]"
proof -
  from assms obtain e where
    "fetch_json (''Failed to fetch weather for '' @ name city @ '': '')
       (weather_api w i (latitude city, longitude city, u, apiKey)) = Inl e"
    using fetch_json_Inl_iff by blast
  then have "outcome (city_weather_try w apiKey u i city) = Inl e"
    "logged (city_weather_try w apiKey u i city) = []"
    by (simp_all add: city_weather_try_def)
  then show ?thesis
    by (simp add: city_weather_task_def try_catch_def)
qed

lemma city_result_failed:
  "fetch_failed (weather_api w i (latitude city, longitude city, u, apiKey)) \<Longrightarrow>
   city_result w apiKey u i city = city"
  by (auto simp: city_result_def fetch_failed_def split: fetch_result.splits option.splits)

lemma city_result_frame:
  "\<exists>ws. city_result w apiKey u i city = city\<lparr>city_weather := ws\<rparr>"
proof -
  have "city = city\<lparr>city_weather := city_weather city\<rparr>" by simp
  then have "\<exists>ws. city = city\<lparr>city_weather := ws\<rparr>" by (rule exI)
  then show ?thesis
    by (auto simp: city_result_def split: fetch_result.splits option.splits sum.splits)
qed

lemma mock_city_weather_frame:
  "\<exists>ws. mock_city_weather w i city = city\<lparr>city_weather := ws\<rparr>"
  by (auto simp: mock_city_weather_def)

lemma concat_map_single:
  "\<forall>x\<in>set xs. f x = [g x] \<Longrightarrow> concat (map f xs) = map g xs"
  by (induction xs) simp_all

lemma Promise_all_resolved:
  assumes "\<forall>t\<in>set tasks. \<exists>v. outcome t = Inr v"
  shows "outcome (Promise_all tasks) = Inr (map (\<lambda>t. projr (outcome t)) tasks)"
  using map_throwing_all_Inr [OF assms] by (simp add: Promise_all_def)

lemma fetchWeatherForCities_with_key:
  assumes "\<not> no_api_key (apiKey_of w)"
  shows "outcome (fetchWeatherForCities w cs units_arg)
           = Inr (map (\<lambda>(i, city). city_result w (apiKey_of w) (units_of units_arg) i city)
                  (enumerate 0 cs))"
    and "requests (fetchWeatherForCities w cs units_arg)
           = map (\<lambda>city. WeatherRequest (latitude city) (longitude city) (units_of units_arg)
                   (apiKey_of w)) cs"
    and "logged (fetchWeatherForCities w cs units_arg)
           = concat (map (\<lambda>(i, city).
               logged (city_weather_task w (apiKey_of w) (units_of units_arg) i city))
               (enumerate 0 cs))"
proof -
  define tasks where "tasks = map (\<lambda>(i, city).
      city_weather_task w (apiKey_of w) (units_of units_arg) i city) (enumerate 0 cs)"
  have "\<forall>t\<in>set tasks. \<exists>v. outcome t = Inr v"
    by (auto simp: tasks_def city_weather_task_outcome)
  then have "outcome (Promise_all tasks) = Inr (map (\<lambda>t. projr (outcome t)) tasks)"
    by (rule Promise_all_resolved)
  also have "map (\<lambda>t. projr (outcome t)) tasks
      = map (\<lambda>(i, city). city_result w (apiKey_of w) (units_of units_arg) i city) (enumerate 0 cs)"
    by (simp add: tasks_def city_weather_task_outcome split_def)
  finally have res: "outcome (Promise_all tasks)
      = Inr (map (\<lambda>(i, city). city_result w (apiKey_of w) (units_of units_arg) i city)
               (enumerate 0 cs))" .
  have f: "fetchWeatherForCities w cs units_arg = Promise_all tasks"
    using assms res
    by (simp add: fetchWeatherForCities_def Let_def tasks_def units_of_def try_catch_Inr)
  from f res show "outcome (fetchWeatherForCities w cs units_arg)
           = Inr (map (\<lambda>(i, city). city_result w (apiKey_of w) (units_of units_arg) i city)
                  (enumerate 0 cs))"
    by simp
  have "concat (map requests tasks)
      = map (\<lambda>e. WeatherRequest (latitude (snd e)) (longitude (snd e)) (units_of units_arg)
                   (apiKey_of w)) (enumerate 0 cs)"
    unfolding tasks_def map_map
    by (rule concat_map_single) (simp add: split_def city_weather_task_requests)
  also have "\<dots> = map (\<lambda>city. WeatherRequest (latitude city) (longitude city)
                           (units_of units_arg) (apiKey_of w)) (map snd (enumerate 0 cs))"
    by (simp only: map_map comp_def)
  finally show "requests (fetchWeatherForCities w cs units_arg)
           = map (\<lambda>city. WeatherRequest (latitude city) (longitude city) (units_of units_arg)
                   (apiKey_of w)) cs"
    by (simp add: f Promise_all_def)
  show "logged (fetchWeatherForCities w cs units_arg)
           = concat (map (\<lambda>(i, city).
               logged (city_weather_task w (apiKey_of w) (units_of units_arg) i city))
               (enumerate 0 cs))"
    by (simp add: f Promise_all_def tasks_def split_def comp_def)
qed

lemma fetchWeatherForCities_without_key:
  assumes "no_api_key (apiKey_of w)"
  shows "outcome (fetchWeatherForCities w cs units_arg)
           = Inr (map (\<lambda>(i, city). mock_city_weather w i city) (enumerate 0 cs))"
  using assms by (simp add: fetchWeatherForCities_def Let_def)


lemma city_result_cong:
  "weather_api w' i (latitude city, longitude city, u, apiKey)
     = weather_api w i (latitude city, longitude city, u, apiKey) \<Longrightarrow>
   city_result w' apiKey u i city = city_result w apiKey u i city"
  by (simp add: city_result_def)

lemma nth_map_enumerate:
  "i < length cs \<Longrightarrow> map (\<lambda>(i, city). F i city) (enumerate 0 cs) ! i = F i (cs ! i)"
  by (simp add: nth_enumerate_eq)

lemma map_enumerate_frame:
  assumes "\<And>i c. f (F i c) = f c"
  shows "map f (map (\<lambda>(i, c). F i c) (enumerate n cs)) = map f cs"
  by (induction cs arbitrary: n) (simp_all add: assms)

text \<open>
  Claim C6. With an API key, \<open>fetchWeatherForCities\<close> resolves to a list as long as its
  input after sending exactly one request per city, in the order of the cities (no request
  is repeated). A city whose fetch fails is in the result as it was given, without weather
  data added. The result for a city depends on the answer to its own request only: in any
  other world with the same key that answers the request of city \<open>j\<close> in the same way,
  whatever happens to the other requests, the result for city \<open>j\<close> is the same.
\<close>

theorem fetchWeatherForCities_failures_independent:
  assumes "\<not> no_api_key (apiKey_of w)"
  shows "\<exists>out. outcome (fetchWeatherForCities w cs units_arg) = Inr out
     \<and> length out = length cs
     \<and> requests (fetchWeatherForCities w cs units_arg)
         = map (\<lambda>city. WeatherRequest (latitude city) (longitude city) (units_of units_arg)
                 (apiKey_of w)) cs
     \<and> (\<forall>i. i < length cs
            \<and> fetch_failed (weather_api w i (latitude (cs ! i), longitude (cs ! i),
                 units_of units_arg, apiKey_of w))
          \<longrightarrow> out ! i = cs ! i)
     \<and> (\<forall>w' j. j < length cs \<and> apiKey_of w' = apiKey_of w
            \<and> weather_api w' j (latitude (cs ! j), longitude (cs ! j),
                 units_of units_arg, apiKey_of w)
              = weather_api w j (latitude (cs ! j), longitude (cs ! j),
                 units_of units_arg, apiKey_of w)
          \<longrightarrow> (\<exists>out'. outcome (fetchWeatherForCities w' cs units_arg) = Inr out'
                 \<and> out' ! j = out ! j))"
proof -
  let ?u = "units_of units_arg"
  let ?res = "\<lambda>w. map (\<lambda>(i, city). city_result w (apiKey_of w) ?u i city) (enumerate 0 cs)"
  have out: "outcome (fetchWeatherForCities w cs units_arg) = Inr (?res w)"
    and req: "requests (fetchWeatherForCities w cs units_arg)
         = map (\<lambda>city. WeatherRequest (latitude city) (longitude city) ?u (apiKey_of w)) cs"
    using assms by (rule fetchWeatherForCities_with_key(1,2))+
  have len: "length (?res w) = length cs" by simp
  have nth: "?res w' ! i = city_result w' (apiKey_of w') ?u i (cs ! i)" if "i < length cs" for w' i
    using that by (rule nth_map_enumerate)
  have failed: "\<forall>i. i < length cs
            \<and> fetch_failed (weather_api w i (latitude (cs ! i), longitude (cs ! i), ?u, apiKey_of w))
          \<longrightarrow> ?res w ! i = cs ! i"
  proof (intro allI impI)
    fix i
    assume a: "i < length cs
            \<and> fetch_failed (weather_api w i (latitude (cs ! i), longitude (cs ! i), ?u, apiKey_of w))"
    then have "city_result w (apiKey_of w) ?u i (cs ! i) = cs ! i"
      by (simp add: city_result_failed)
    with a nth [of i w] show "?res w ! i = cs ! i" by simp
  qed
  have indep: "\<forall>w' j. j < length cs \<and> apiKey_of w' = apiKey_of w
            \<and> weather_api w' j (latitude (cs ! j), longitude (cs ! j), ?u, apiKey_of w)
              = weather_api w j (latitude (cs ! j), longitude (cs ! j), ?u, apiKey_of w)
          \<longrightarrow> (\<exists>out'. outcome (fetchWeatherForCities w' cs units_arg) = Inr out'
                 \<and> out' ! j = ?res w ! j)"
  proof (intro allI impI)
    fix w' j
    assume a: "j < length cs \<and> apiKey_of w' = apiKey_of w
            \<and> weather_api w' j (latitude (cs ! j), longitude (cs ! j), ?u, apiKey_of w)
              = weather_api w j (latitude (cs ! j), longitude (cs ! j), ?u, apiKey_of w)"
    with assms have "\<not> no_api_key (apiKey_of w')" by simp
    then have o': "outcome (fetchWeatherForCities w' cs units_arg) = Inr (?res w')"
      by (rule fetchWeatherForCities_with_key(1))
    from a have "weather_api w' j (latitude (cs ! j), longitude (cs ! j), ?u, apiKey_of w)
              = weather_api w j (latitude (cs ! j), longitude (cs ! j), ?u, apiKey_of w)"
      by simp
    then have "city_result w' (apiKey_of w) ?u j (cs ! j)
                 = city_result w (apiKey_of w) ?u j (cs ! j)"
      by (rule city_result_cong)
    moreover from a have jl: "j < length cs" by simp
    note nth [OF jl, of w'] nth [OF jl, of w]
    moreover from a have "apiKey_of w' = apiKey_of w" by simp
    ultimately have "?res w' ! j = ?res w ! j"
      by (simp only:)
    with o' show "\<exists>out'. outcome (fetchWeatherForCities w' cs units_arg) = Inr out'
                 \<and> out' ! j = ?res w ! j"
      by blast
  qed
  show ?thesis
  proof (rule exI [of _ "?res w"], intro conjI)
    show "outcome (fetchWeatherForCities w cs units_arg) = Inr (?res w)" by (fact out)
    show "length (?res w) = length cs" by (fact len)
    show "requests (fetchWeatherForCities w cs units_arg)
         = map (\<lambda>city. WeatherRequest (latitude city) (longitude city) ?u (apiKey_of w)) cs"
      by (fact req)
    show "\<forall>i. i < length cs
            \<and> fetch_failed (weather_api w i (latitude (cs ! i), longitude (cs ! i), ?u, apiKey_of w))
          \<longrightarrow> ?res w ! i = cs ! i"
      by (fact failed)
    show "\<forall>w' j. j < length cs \<and> apiKey_of w' = apiKey_of w
            \<and> weather_api w' j (latitude (cs ! j), longitude (cs ! j), ?u, apiKey_of w)
              = weather_api w j (latitude (cs ! j), longitude (cs ! j), ?u, apiKey_of w)
          \<longrightarrow> (\<exists>out'. outcome (fetchWeatherForCities w' cs units_arg) = Inr out'
                 \<and> out' ! j = ?res w ! j)"
      by (fact indep)
  qed
qed

lemma example_world_key: "\<not> no_api_key (apiKey_of example_world)"
  by (simp add: no_api_key_def apiKey_of_def example_world_def or_str_def)

lemma healthy_world_key: "apiKey_of healthy_world = apiKey_of example_world"
  by (simp add: apiKey_of_def healthy_world_def)

theorem fetchWeatherForCities_failures_independent_witness:
  "\<exists>out. outcome (fetchWeatherForCities example_world [example_city, second_city] None) = Inr out
     \<and> length out = 2
     \<and> length (requests (fetchWeatherForCities example_world [example_city, second_city] None)) = 2
     \<and> fetch_failed (weather_api example_world 1 (latitude second_city, longitude second_city,
          metric, ''key''))
     \<and> out ! 1 = second_city
     \<and> (\<exists>out'. outcome (fetchWeatherForCities healthy_world [example_city, second_city] None)
                  = Inr out'
              \<and> out' ! 0 = out ! 0)"
proof -
  let ?cs = "[example_city, second_city]"
  have k: "apiKey_of example_world = ''key''"
    by (simp add: apiKey_of_def example_world_def or_str_def)
  have u: "units_of None = metric"
    by (simp add: units_of_def)
  have f1: "fetch_failed (weather_api example_world 1 (latitude second_city, longitude second_city,
          metric, ''key''))"
    by (simp add: example_world_def fetch_failed_def response_ok_def)
  have same: "weather_api healthy_world 0 q = weather_api example_world 0 q" for q
    by (simp add: healthy_world_def example_world_def)
  from fetchWeatherForCities_failures_independent [OF example_world_key, of ?cs None]
  obtain out where o: "outcome (fetchWeatherForCities example_world ?cs None) = Inr out"
    and l: "length out = length ?cs"
    and r: "requests (fetchWeatherForCities example_world ?cs None)
         = map (\<lambda>city. WeatherRequest (latitude city) (longitude city) (units_of None)
                 (apiKey_of example_world)) ?cs"
    and f: "\<forall>i. i < length ?cs
            \<and> fetch_failed (weather_api example_world i (latitude (?cs ! i), longitude (?cs ! i),
                 units_of None, apiKey_of example_world))
          \<longrightarrow> out ! i = ?cs ! i"
    and i: "\<forall>w' j. j < length ?cs \<and> apiKey_of w' = apiKey_of example_world
            \<and> weather_api w' j (latitude (?cs ! j), longitude (?cs ! j),
                 units_of None, apiKey_of example_world)
              = weather_api example_world j (latitude (?cs ! j), longitude (?cs ! j),
                 units_of None, apiKey_of example_world)
          \<longrightarrow> (\<exists>out'. outcome (fetchWeatherForCities w' ?cs None) = Inr out'
                 \<and> out' ! j = out ! j)"
    by blast
  from f [rule_format, of 1] f1 have o1: "out ! 1 = second_city"
    by (simp add: k u)
  from i [rule_format, of 0 healthy_world] healthy_world_key same
  have o0: "\<exists>out'. outcome (fetchWeatherForCities healthy_world ?cs None) = Inr out'
              \<and> out' ! 0 = out ! 0"
    by simp
  from o l r f1 o1 o0 show ?thesis by simp
qed

lemma fetchWeatherForCities_shape:
  "\<exists>F. (\<forall>i c. \<exists>ws. F i c = c\<lparr>city_weather := ws\<rparr>)
     \<and> outcome (fetchWeatherForCities w cs units_arg)
         = Inr (map (\<lambda>(i, c). F i c) (enumerate 0 cs))"
proof (cases "no_api_key (apiKey_of w)")
  case True
  then have "outcome (fetchWeatherForCities w cs units_arg)
           = Inr (map (\<lambda>(i, city). mock_city_weather w i city) (enumerate 0 cs))"
    by (rule fetchWeatherForCities_without_key)
  with mock_city_weather_frame show ?thesis by blast
next
  case False
  then have "outcome (fetchWeatherForCities w cs units_arg)
           = Inr (map (\<lambda>(i, city). city_result w (apiKey_of w) (units_of units_arg) i city)
                  (enumerate 0 cs))"
    by (rule fetchWeatherForCities_with_key(1))
  with city_result_frame show ?thesis by blast
qed

text \<open>
  Claim C9. \<open>fetchWeatherForCities\<close> resolves to a list of the same length as its input,
  and position by position the id, name, country, latitude, longitude, population and
  timezone are those of the input: only the weather may differ. This holds with and
  without an API key.
\<close>

theorem fetchWeatherForCities_changes_only_weather:
  "\<exists>out. outcome (fetchWeatherForCities w cs units_arg) = Inr out
     \<and> length out = length cs
     \<and> map city_id out = map city_id cs
     \<and> map name out = map name cs
     \<and> map country out = map country cs
     \<and> map latitude out = map latitude cs
     \<and> map longitude out = map longitude cs
     \<and> map population out = map population cs
     \<and> map timezone out = map timezone cs"
proof -
  from fetchWeatherForCities_shape [of w cs units_arg]
  obtain F where F: "\<And>i c. \<exists>ws. F i c = c\<lparr>city_weather := ws\<rparr>"
    and out: "outcome (fetchWeatherForCities w cs units_arg)
         = Inr (map (\<lambda>(i, c). F i c) (enumerate 0 cs))"
    by blast
  let ?out = "map (\<lambda>(i, c). F i c) (enumerate 0 cs)"
  have "city_id (F i c) = city_id c" "name (F i c) = name c" "country (F i c) = country c"
    "latitude (F i c) = latitude c" "longitude (F i c) = longitude c"
    "population (F i c) = population c" "timezone (F i c) = timezone c" for i c
    using F [of i c] by auto
  then have "map city_id ?out = map city_id cs" "map name ?out = map name cs"
    "map country ?out = map country cs" "map latitude ?out = map latitude cs"
    "map longitude ?out = map longitude cs" "map population ?out = map population cs"
    "map timezone ?out = map timezone cs"
    by (simp_all only: map_enumerate_frame)
  moreover have "length ?out = length cs" by simp
  ultimately show ?thesis using out by blast
qed

theorem fetchWeatherForCities_changes_only_weather_witness:
  "\<exists>out. outcome (fetchWeatherForCities example_world [example_city, second_city] None) = Inr out
     \<and> length out = 2
     \<and> map city_id out = [''r1'', ''r2'']
     \<and> map name out = [''Pune'', ''Oslo'']
     \<and> map country out = [''India'', ''Norway'']
     \<and> map latitude out = [37 / 2, 60]
     \<and> map longitude out = [74, 43 / 4]
     \<and> map population out = [3000000, 700000]
     \<and> map timezone out = [''Asia/Kolkata'', ''Europe/Oslo'']"
proof -
  from fetchWeatherForCities_changes_only_weather
    [of example_world "[example_city, second_city]" None]
  obtain out
    where "outcome (fetchWeatherForCities example_world [example_city, second_city] None) = Inr out"
      and "length out = length [example_city, second_city]"
      and "map city_id out = map city_id [example_city, second_city]"
      and "map name out = map name [example_city, second_city]"
      and "map country out = map country [example_city, second_city]"
      and "map latitude out = map latitude [example_city, second_city]"
      and "map longitude out = map longitude [example_city, second_city]"
      and "map population out = map population [example_city, second_city]"
      and "map timezone out = map timezone [example_city, second_city]"
    by blast
  then show ?thesis
    by (intro exI [of _ out]) (simp add: example_city_def second_city_def)
qed

subsection \<open>fetchWeather\<close>

lemma fetchWeather_try_failed:
  assumes "\<not> no_api_key apiKey"
    and "fetch_failed (weather_api w 0 (lat, lon, u, apiKey))
         \<or> fetch_failed (forecast_api w (lat, lon, u, apiKey))"
  shows "\<exists>e. outcome (fetchWeather_try w lat lon u apiKey) = Inl e"
    and "logged (fetchWeather_try w lat lon u apiKey) = []"
proof -
  show "logged (fetchWeather_try w lat lon u apiKey) = []"
    using assms(1) by (simp add: fetchWeather_try_def split: sum.splits)
  show "\<exists>e. outcome (fetchWeather_try w lat lon u apiKey) = Inl e"
  proof (cases "fetch_json ''Failed to fetch current weather: ''
                  (weather_api w 0 (lat, lon, u, apiKey))")
    case (Inl e)
    with assms(1) show ?thesis by (simp add: fetchWeather_try_def)
  next
    case (Inr currentData)
    then have "\<not> fetch_failed (weather_api w 0 (lat, lon, u, apiKey))"
      using fetch_json_Inl_iff [of "''Failed to fetch current weather: ''"
          "weather_api w 0 (lat, lon, u, apiKey)"] by auto
    with assms(2) have "fetch_failed (forecast_api w (lat, lon, u, apiKey))" by simp
    then obtain e where
      "fetch_json ''Failed to fetch forecast: '' (forecast_api w (lat, lon, u, apiKey)) = Inl e"
      using fetch_json_Inl_iff by blast
    with Inr assms(1) show ?thesis by (simp add: fetchWeather_try_def)
  qed
qed

lemma fetchWeather_failed:
  assumes "\<not> no_api_key (apiKey_of w)"
    and "fetch_failed (weather_api w 0 (p_lat params, p_lon params, units_of (p_units params),
           apiKey_of w))
         \<or> fetch_failed (forecast_api w (p_lat params, p_lon params, units_of (p_units params),
           apiKey_of w))"
  shows "outcome (fetchWeather w params)
           = Inr (getMockWeatherData w (units_of (p_units params)))"
    and "\<exists>e. logged (fetchWeather w params) = [console_error ''Error fetching weather data:'' e]"
proof -
  from fetchWeather_try_failed [OF assms]
  obtain e where "outcome (fetchWeather_try w (p_lat params) (p_lon params)
                     (units_of (p_units params)) (apiKey_of w)) = Inl e"
    and "logged (fetchWeather_try w (p_lat params) (p_lon params)
                     (units_of (p_units params)) (apiKey_of w)) = []"
    by blast
  then show "outcome (fetchWeather w params)
           = Inr (getMockWeatherData w (units_of (p_units params)))"
    and "\<exists>e. logged (fetchWeather w params) = [console_error ''Error fetching weather data:'' e]"
    by (simp_all add: fetchWeather_def Let_def units_of_def try_catch_def)
qed

lemma fetchWeather_ok:
  assumes "\<not> no_api_key (apiKey_of w)"
    and "weather_api w 0 (p_lat params, p_lon params, units_of (p_units params), apiKey_of w)
           = Response s1 (Some currentData)" and "response_ok s1"
    and "forecast_api w (p_lat params, p_lon params, units_of (p_units params), apiKey_of w)
           = Response s2 (Some forecastList)" and "response_ok s2"
    and "processForecastData forecastList = Inr dailyForecasts"
  shows "outcome (fetchWeather w params)
           = Inr \<lparr> current = currentData, forecast = dailyForecasts \<rparr>"
    and "logged (fetchWeather w params) = []"
  using assms
  by (simp_all add: fetchWeather_def Let_def units_of_def try_catch_def fetchWeather_try_def
      fetch_json_def)

subsection \<open>What the fetching functions do when a fetch fails\<close>

lemma fetchWeatherForCities_failed_city:
  assumes "\<not> no_api_key (apiKey_of w)" and "i < length cs"
    and "fetch_failed (weather_api w i (latitude (cs ! i), longitude (cs ! i),
           units_of units_arg, apiKey_of w))"
  shows "\<exists>out. outcome (fetchWeatherForCities w cs units_arg) = Inr out \<and> out ! i = cs ! i"
    and "\<exists>e. console_error (''Error fetching weather for '' @ name (cs ! i) @ '':'') e
           \<in> set (logged (fetchWeatherForCities w cs units_arg))"
proof -
  let ?u = "units_of units_arg"
  let ?res = "map (\<lambda>(i, city). city_result w (apiKey_of w) ?u i city) (enumerate 0 cs)"
  have "?res ! i = city_result w (apiKey_of w) ?u i (cs ! i)"
    using assms(2) by (rule nth_map_enumerate)
  also have "\<dots> = cs ! i"
    using assms(3) by (rule city_result_failed)
  finally show "\<exists>out. outcome (fetchWeatherForCities w cs units_arg) = Inr out \<and> out ! i = cs ! i"
    using fetchWeatherForCities_with_key(1) [OF assms(1), of cs units_arg] by simp
  from city_weather_task_logged [OF assms(3)] obtain e where
    e: "logged (city_weather_task w (apiKey_of w) ?u i (cs ! i))
          = [console_error (''Error fetching weather for '' @ name (cs ! i) @ '':'') e]"
    by blast
  have "(i, cs ! i) \<in> set (enumerate 0 cs)"
    using assms(2) by (simp add: in_set_enumerate_eq)
  with e have "console_error (''Error fetching weather for '' @ name (cs ! i) @ '':'') e
           \<in> set (concat (map (\<lambda>(i, city).
               logged (city_weather_task w (apiKey_of w) ?u i city)) (enumerate 0 cs)))"
    by force
  then show "\<exists>e. console_error (''Error fetching weather for '' @ name (cs ! i) @ '':'') e
           \<in> set (logged (fetchWeatherForCities w cs units_arg))"
    using fetchWeatherForCities_with_key(3) [OF assms(1), of cs units_arg] by auto
qed

lemma offline_world_failed:
  "fetch_failed (cities_api offline_world q)"
  "fetch_failed (weather_api offline_world i r)"
  "fetch_failed (forecast_api offline_world r)"
  by (simp_all add: offline_world_def fetch_failed_def)

lemma offline_world_key: "\<not> no_api_key (apiKey_of offline_world)"
  by (simp add: no_api_key_def apiKey_of_def offline_world_def or_str_def)

text \<open>
  Claim C5, as stated, fails in the world where every fetch is rejected: \<open>getCityById\<close>
  for an id that does not start with \<open>mock-\<close> resolves to \<open>null\<close>, and
  \<open>fetchWeatherForCities\<close> returns the city as given, with no weather; neither result
  holds a placeholder value.
\<close>

theorem failed_fetch_without_placeholder:
  "fetch_failed (cities_api offline_world [cities_dataset, (''q'', ''recordid:'' @ ''abc'')])
   \<and> outcome (getCityById offline_world ''abc'') = Inr None
   \<and> fetch_failed (weather_api offline_world 0
         (latitude example_city, longitude example_city, metric, apiKey_of offline_world))
   \<and> city_weather example_city = None
   \<and> outcome (fetchWeatherForCities offline_world [example_city] None) = Inr [example_city]"
proof -
  have a: "outcome (getCityById offline_world ''abc'') = Inr None"
    using getCityById_failed(1) [OF offline_world_failed(1), of "''abc''"]
    by (simp add: startsWith_def)
  have b: "city_weather example_city = None"
    by (simp add: example_city_def)
  have "outcome (fetchWeatherForCities offline_world [example_city] None)
          = Inr (map (\<lambda>(i, city). city_result offline_world (apiKey_of offline_world)
                   (units_of None) i city) (enumerate 0 [example_city]))"
    using offline_world_key by (rule fetchWeatherForCities_with_key(1))
  then have c: "outcome (fetchWeatherForCities offline_world [example_city] None)
                  = Inr [example_city]"
    by (simp add: city_result_failed offline_world_failed)
  from a b c offline_world_failed show ?thesis by simp
qed

text \<open>
  Claim C5, amended. When the upstream fetch fails, every fetching operation writes one
  line to the console with the error, for the failed fetch, and its promise resolves:
  \<open>fetchCities\<close> to the mock page and \<open>fetchWeather\<close> to the mock weather, both made
  with \<open>Math.random()\<close>; \<open>getCityById\<close> to the mock city when the id starts with
  \<open>mock-\<close> and to \<open>null\<close> otherwise; \<open>fetchWeatherForCities\<close> to a list that holds the
  city whose fetch failed as it was given. (\<open>fetchWeather\<close> and \<open>fetchWeatherForCities\<close>
  fetch only when there is an API key.)
\<close>

theorem fetchers_on_failure:
  "(fetch_failed (cities_api w (cities_dataset # queryParams params))
      \<longrightarrow> outcome (fetchCities w params) = Inr (mockCities w params)
        \<and> (\<exists>e. logged (fetchCities w params) = [console_error ''Error fetching cities:'' e]))
   \<and> (fetch_failed (cities_api w [cities_dataset, (''q'', ''recordid:'' @ ident)])
      \<longrightarrow> outcome (getCityById w ident)
            = Inr (if startsWith ident ''mock-'' then Some (mock_city_by_id w ident) else None)
        \<and> (\<exists>e. logged (getCityById w ident)
                 = [console_error ''Error fetching city by ID:'' e]))
   \<and> (\<not> no_api_key (apiKey_of w)
       \<and> (fetch_failed (weather_api w 0 (p_lat wp, p_lon wp, units_of (p_units wp), apiKey_of w))
          \<or> fetch_failed (forecast_api w (p_lat wp, p_lon wp, units_of (p_units wp),
                apiKey_of w)))
      \<longrightarrow> outcome (fetchWeather w wp) = Inr (getMockWeatherData w (units_of (p_units wp)))
        \<and> (\<exists>e. logged (fetchWeather w wp)
                 = [console_error ''Error fetching weather data:'' e]))
   \<and> (\<not> no_api_key (apiKey_of w) \<and> i < length cs
       \<and> fetch_failed (weather_api w i (latitude (cs ! i), longitude (cs ! i),
            units_of units_arg, apiKey_of w))
      \<longrightarrow> (\<exists>out. outcome (fetchWeatherForCities w cs units_arg) = Inr out
               \<and> out ! i = cs ! i)
        \<and> (\<exists>e. console_error (''Error fetching weather for '' @ name (cs ! i) @ '':'') e
                 \<in> set (logged (fetchWeatherForCities w cs units_arg))))"
  using fetchCities_failed [of w params] getCityById_failed [of w ident]
    fetchWeather_failed [of w wp] fetchWeatherForCities_failed_city [of w i cs units_arg]
  by (intro conjI impI) (erule conjE | assumption | simp)+

theorem fetchers_on_failure_witness:
  "outcome (fetchCities offline_world example_params)
      = Inr (mockCities offline_world example_params)
   \<and> (\<exists>e. logged (fetchCities offline_world example_params)
             = [console_error ''Error fetching cities:'' e])
   \<and> outcome (getCityById offline_world ''mock-41'')
      = Inr (Some (mock_city_by_id offline_world ''mock-41''))
   \<and> (\<exists>e. logged (getCityById offline_world ''mock-41'')
             = [console_error ''Error fetching city by ID:'' e])
   \<and> outcome (fetchWeather offline_world \<lparr> p_lat = 37 / 2, p_lon = 74, p_units = None \<rparr>)
      = Inr (getMockWeatherData offline_world metric)
   \<and> (\<exists>e. logged (fetchWeather offline_world \<lparr> p_lat = 37 / 2, p_lon = 74, p_units = None \<rparr>)
             = [console_error ''Error fetching weather data:'' e])
   \<and> (\<exists>out. outcome (fetchWeatherForCities offline_world [example_city] None) = Inr out
          \<and> out ! 0 = example_city)
   \<and> (\<exists>e. console_error ''Error fetching weather for Pune:'' e
             \<in> set (logged (fetchWeatherForCities offline_world [example_city] None)))"
proof -
  have s: "startsWith ''mock-41'' ''mock-''"
    by (simp add: startsWith_def)
  have u: "units_of (p_units \<lparr> p_lat = 37 / 2, p_lon = 74, p_units = None \<rparr>) = metric"
    by (simp add: units_of_def)
  have n: "name example_city = ''Pune''"
    by (simp add: example_city_def)
  from fetchers_on_failure [of offline_world example_params "''mock-41''"
      "\<lparr> p_lat = 37 / 2, p_lon = 74, p_units = None \<rparr>" 0 "[example_city]" None]
    offline_world_failed offline_world_key s
  show ?thesis
    by (simp add: u n units_of_def)
qed

text \<open>The mock page, computed: twenty cities, numbered from the offset.\<close>

lemma mockCities_example:
  "length (cities (mockCities offline_world example_params)) = 20
   \<and> city_id (hd (cities (mockCities offline_world example_params))) = ''mock-40''
   \<and> name (hd (cities (mockCities offline_world example_params))) = ''City 41''
   \<and> country (hd (cities (mockCities offline_world example_params))) = ''UK''
   \<and> latitude (hd (cities (mockCities offline_world example_params))) = 0
   \<and> hasMore (mockCities offline_world example_params)
   \<and> total (mockCities offline_world example_params) = 100"
proof -
  have p: "page_of example_params = 3" "limit_of example_params = 20"
    "offset_of example_params = 40"
    by (simp_all add: example_params_def page_of_def limit_of_def offset_of_def)
  have "[0 ..< nat 20] = 0 # [1 ..< 20]"
    by (simp add: upt_conv_Cons)
  then show ?thesis
    by (simp add: mockCities_def p mock_city_def offline_world_def pick_def
        Number_toString_def digits_of.simps)
qed

end
